(* ===== verification/Prelude.thy ===== *)
theory Prelude
  imports Main "HOL-Library.Word"
begin

text \<open>
  Shared vocabulary of the CHIP-8 development: the machine-integer types of
  \<^verbatim>\<open>src/chip8.h\<close> (\<open>uint8_t\<close>, \<open>uint16_t\<close>, \<open>uint32_t\<close> as words, so that
  C's unsigned wrap-around is the word arithmetic), a bind on the error sum
  \<open>'e + 'a\<close> used to thread the faults of undefined behaviour through a
  cycle, the lemma collections the component theories fill, and the generic
  word and sum lemmas the components share.
\<close>

unbundle bit_operations_syntax

type_synonym u8 = "8 word"
type_synonym u16 = "16 word"
type_synonym u32 = "32 word"

named_theorems field_bounds \<open>bounds of the opcode fields and derived indices\<close>
named_theorems frame_simps \<open>fields an operation leaves unchanged\<close>

subsection \<open>Sequencing with errors\<close>

text \<open>
  \<open>ebind m f\<close> runs \<open>f\<close> on the result of \<open>m\<close> and propagates the first error
  unchanged; C code that can hit undefined behaviour half-way through an
  operation is modelled as a chain of \<open>ebind\<close>s.
\<close>

fun ebind :: "'e + 'a \<Rightarrow> ('a \<Rightarrow> 'e + 'b) \<Rightarrow> 'e + 'b" where
  "ebind (Inl e) f = Inl e"
| "ebind (Inr a) f = f a"

lemma ebind_eq_Inr [simp]:
  "ebind m f = Inr b \<longleftrightarrow> (\<exists>a. m = Inr a \<and> f a = Inr b)"
  by (cases m) auto

lemma ebind_Inr_right [simp]: "ebind m Inr = m"
  by (cases m) auto

subsection \<open>Word facts shared by the components\<close>

lemma unat_u8_lt_256 [field_bounds]: "unat (w :: u8) < 256"
  using unsigned_less [of w] by simp

lemma unat_u16_lt [field_bounds]: "unat (w :: u16) < 65536"
  using unsigned_less [of w] by simp

lemma unat_and_le_right: "unat (a AND b :: 'a::len word) \<le> unat b"
  by (simp add: word_le_nat_alt [symmetric] word_and_le1 and.commute)

lemma unat_ucast_u8_u16 [simp]: "unat (ucast (w :: u8) :: u16) = unat w"
  by (simp add: unsigned_ucast_eq take_bit_nat_eq_self_iff unat_u8_lt_256 [of w, THEN less_le_trans])

lemma and_255_nat: "(n::nat) AND 255 = n mod 256"
  using take_bit_eq_mask [of 8 n] by (simp add: take_bit_eq_mod mask_eq_exp_minus_1)

text \<open>The C sum \<open>uint16_t sum = a + b\<close> of two bytes, its carry and its low byte.\<close>

lemma u16_sum_unat: "unat (ucast a + ucast b :: u16) = unat (a::u8) + unat (b::u8)"
  using unat_u8_lt_256 [of a] unat_u8_lt_256 [of b]
  by (simp add: unat_add_lem [THEN iffD1])

lemma u16_sum_carry:
  "((ucast a + ucast b :: u16) > 0xFF) \<longleftrightarrow> 255 < unat (a::u8) + unat (b::u8)"
  by (simp add: word_less_nat_alt u16_sum_unat)

lemma u16_sum_low: "(ucast ((ucast a + ucast b :: u16) AND 0xFF) :: u8) = a + b"
proof -
  have "unat (ucast ((ucast a + ucast b :: u16) AND 0xFF) :: u8) = (unat a + unat b) mod 256"
    by (simp add: unsigned_ucast_eq u16_sum_unat take_bit_eq_mod unsigned_and_eq and_255_nat)
  then show ?thesis
    by (simp add: word_unat_eq_iff unat_word_ariths)
qed

text \<open>The big-endian 16-bit word \<open>hi << 8 | lo\<close> of two bytes.\<close>

lemma u16_of_bytes:
  "unat (push_bit 8 (ucast hi) OR ucast lo :: u16) = 256 * unat (hi::u8) + unat (lo::u8)"
proof -
  have dis: "push_bit 8 (ucast hi) OR ucast lo = (push_bit 8 (ucast hi) + ucast lo :: u16)"
    by (rule disjunctive_add [symmetric]) (auto simp: bit_simps dest: bit_imp_le_length)
  have hi: "unat (push_bit 8 (ucast hi) :: u16) = 256 * unat hi"
    using unat_u8_lt_256 [of hi]
    by (simp add: push_bit_eq_mult unat_word_ariths)
  have "256 * unat hi + unat lo < 65536"
    using unat_u8_lt_256 [of hi] unat_u8_lt_256 [of lo] by linarith
  then show ?thesis
    unfolding dis by (simp add: unat_add_lem [THEN iffD1] hi)
qed
subsection \<open>Bit facts for the sprite blit\<close>

text \<open>
  \<open>sprite_byte & (0x80 >> col)\<close> tests bit \<open>7 - col\<close>; a framebuffer row
  \<open>d\<close> toggled with the mask \<open>1U << p\<close> changes exactly its bit \<open>p\<close>.
\<close>

lemma bit_128_int: "bit (128::int) k \<longleftrightarrow> k = 7"
proof -
  have "bit ((2::int) ^ 7) k \<longleftrightarrow> k = 7"
    by (subst bit_exp_iff) auto
  then show ?thesis by simp
qed

lemma drop_bit_0x80: "col < 8 \<Longrightarrow> drop_bit col (0x80::u8) = 2 ^ (7 - col)"
  by (rule bit_eqI) (auto simp: bit_drop_bit_eq bit_exp_iff bit_128_int)

lemma sprite_bit: "col < 8 \<Longrightarrow> (b AND drop_bit col (0x80::u8) \<noteq> 0) = bit b (7 - col)"
  by (simp add: drop_bit_0x80 and_exp_eq_0_iff_not_bit)

lemma bit_xor_mask: "bit (d XOR 2 ^ p :: u32) q \<longleftrightarrow> bit d q \<noteq> (q = p \<and> p < 32)"
  by (auto simp: bit_simps)

lemma and_mask_nonzero: "p < 32 \<Longrightarrow> (d AND 2 ^ p :: u32) \<noteq> 0 \<longleftrightarrow> bit d p"
  by (simp add: and_exp_eq_0_iff_not_bit)

lemma unat_and_0xF: "unat (w AND 0xF :: u8) = unat w mod 16"
  using take_bit_eq_mask [of 4 "unat w"]
  by (simp add: unsigned_and_eq take_bit_eq_mod mask_eq_exp_minus_1)

end
