(* ===== verification/State.thy ===== *)
theory State
  imports Prelude
begin

text \<open>
  The machine state of \<^verbatim>\<open>src/chip8.h\<close> (\<open>chip8_t\<close>) as a record, the
  constants of its \<open>#define\<close>s, the glyph table and \<open>chip8_init\<close> of
  \<^verbatim>\<open>src/chip8.c\<close>. Each C array is a function from indices; every access
  of the model goes through a checked accessor, so cells outside the C array
  are never read or written. An access the C code makes outside an array, or a
  shift by the width of the shifted type or more, is undefined behaviour in C;
  the model returns it as a \<open>fault\<close>, and the lemmas of the other theories say
  when a fault can and cannot happen.
\<close>

subsection \<open>Constants\<close>

definition MEMORY_SIZE :: nat where "MEMORY_SIZE = 4096"
definition DISPLAY_WIDTH :: nat where "DISPLAY_WIDTH = 64"
definition DISPLAY_HEIGHT :: nat where "DISPLAY_HEIGHT = 32"
definition STACK_SIZE :: nat where "STACK_SIZE = 16"
definition NUM_REGISTERS :: nat where "NUM_REGISTERS = 16"
definition NUM_KEYS :: nat where "NUM_KEYS = 16"
definition FONTSET_SIZE :: nat where "FONTSET_SIZE = 80"
definition PROGRAM_START :: nat where "PROGRAM_START = 512"

lemmas chip8_constants [simp] =
  MEMORY_SIZE_def DISPLAY_WIDTH_def DISPLAY_HEIGHT_def STACK_SIZE_def
  NUM_REGISTERS_def NUM_KEYS_def FONTSET_SIZE_def PROGRAM_START_def

subsection \<open>The state record\<close>

record chip8 =
  memory :: "nat \<Rightarrow> u8"
  V :: "nat \<Rightarrow> u8"
  I :: u16
  pc :: u16
  sp :: u8
  stack :: "nat \<Rightarrow> u16"
  delay_timer :: u8
  sound_timer :: u8
  keypad :: "nat \<Rightarrow> u8"
  display :: "nat \<Rightarrow> u32"
  draw_flag :: bool

text \<open>Undefined behaviour of the C code, made visible.\<close>

datatype fault =
    Memory_out_of_range nat  \<comment> \<open>an index of \<open>memory[]\<close> that is \<open>\<ge> MEMORY_SIZE\<close>\<close>
  | Stack_out_of_range nat   \<comment> \<open>an index of \<open>stack[]\<close> that is \<open>\<ge> STACK_SIZE\<close>\<close>
  | Shift_out_of_range nat   \<comment> \<open>\<open>1U << n\<close> with \<open>n \<ge> 32\<close>\<close>

subsection \<open>Array accesses\<close>

definition mem_read :: "chip8 \<Rightarrow> nat \<Rightarrow> fault + u8" where
  "mem_read s a =
     (if a < MEMORY_SIZE then Inr (memory s a) else Inl (Memory_out_of_range a))"

definition mem_write :: "chip8 \<Rightarrow> nat \<Rightarrow> u8 \<Rightarrow> fault + chip8" where
  "mem_write s a v =
     (if a < MEMORY_SIZE then Inr (s\<lparr>memory := (memory s)(a := v)\<rparr>)
      else Inl (Memory_out_of_range a))"

definition stack_read :: "chip8 \<Rightarrow> nat \<Rightarrow> fault + u16" where
  "stack_read s i =
     (if i < STACK_SIZE then Inr (stack s i) else Inl (Stack_out_of_range i))"

definition stack_write :: "chip8 \<Rightarrow> nat \<Rightarrow> u16 \<Rightarrow> fault + chip8" where
  "stack_write s i v =
     (if i < STACK_SIZE then Inr (s\<lparr>stack := (stack s)(i := v)\<rparr>)
      else Inl (Stack_out_of_range i))"

text \<open>
  Register writes \<open>chip8->V[x] = v\<close>. Register indices come from 4-bit opcode
  fields or from loops bounded by them, so they are always below
  \<open>NUM_REGISTERS\<close> (lemmas in \<open>Cycle\<close>); no check is needed.
\<close>

definition set_V :: "chip8 \<Rightarrow> nat \<Rightarrow> u8 \<Rightarrow> chip8" where
  "set_V s x v = s\<lparr>V := (V s)(x := v)\<rparr>"

subsection \<open>Initialisation\<close>

definition fontset :: "u8 list" where
  "fontset =
    [0xF0, 0x90, 0x90, 0x90, 0xF0,
     0x20, 0x60, 0x20, 0x20, 0x70,
     0xF0, 0x10, 0xF0, 0x80, 0xF0,
     0xF0, 0x10, 0xF0, 0x10, 0xF0,
     0x90, 0x90, 0xF0, 0x10, 0x10,
     0xF0, 0x80, 0xF0, 0x10, 0xF0,
     0xF0, 0x80, 0xF0, 0x90, 0xF0,
     0xF0, 0x10, 0x20, 0x40, 0x40,
     0xF0, 0x90, 0xF0, 0x90, 0xF0,
     0xF0, 0x90, 0xF0, 0x10, 0xF0,
     0xF0, 0x90, 0xF0, 0x90, 0x90,
     0xE0, 0x90, 0xE0, 0x90, 0xE0,
     0xF0, 0x80, 0x80, 0x80, 0xF0,
     0xE0, 0x90, 0x90, 0x90, 0xE0,
     0xF0, 0x80, 0xF0, 0x80, 0xF0,
     0xF0, 0x80, 0xF0, 0x80, 0x80]"

text \<open>
  \<open>chip8_init\<close>: \<open>memset\<close> to zero, copy the glyph table to address 0, set
  \<open>pc\<close>. The call \<open>srand(time(NULL))\<close> is not state of \<open>chip8_t\<close>: the
  random byte of \<open>Cxkk\<close> is an input of the cycle (see \<open>Cycle\<close>).
\<close>

definition chip8_init :: chip8 where
  "chip8_init =
     \<lparr>memory = (\<lambda>a. if a < FONTSET_SIZE then fontset ! a else 0),
      V = (\<lambda>_. 0), I = 0, pc = of_nat PROGRAM_START, sp = 0,
      stack = (\<lambda>_. 0), delay_timer = 0, sound_timer = 0,
      keypad = (\<lambda>_. 0), display = (\<lambda>_. 0), draw_flag = False\<rparr>"

text \<open>The glyph table occupies the first \<open>FONTSET_SIZE\<close> bytes of memory.\<close>

definition font_intact :: "chip8 \<Rightarrow> bool" where
  "font_intact s \<longleftrightarrow> (\<forall>a < FONTSET_SIZE. memory s a = fontset ! a)"

subsection \<open>Facts on the accessors\<close>

lemma length_fontset [simp]: "length fontset = FONTSET_SIZE"
  by (simp add: fontset_def)

lemma mem_read_Inr [simp]: "mem_read s a = Inr v \<longleftrightarrow> a < MEMORY_SIZE \<and> v = memory s a"
  by (auto simp: mem_read_def)

lemma mem_write_Inr [simp]:
  "mem_write s a v = Inr t \<longleftrightarrow> a < MEMORY_SIZE \<and> t = s\<lparr>memory := (memory s)(a := v)\<rparr>"
  by (auto simp: mem_write_def)

lemma stack_read_Inr [simp]: "stack_read s i = Inr v \<longleftrightarrow> i < STACK_SIZE \<and> v = stack s i"
  by (auto simp: stack_read_def)

lemma stack_write_Inr [simp]:
  "stack_write s i v = Inr t \<longleftrightarrow> i < STACK_SIZE \<and> t = s\<lparr>stack := (stack s)(i := v)\<rparr>"
  by (auto simp: stack_write_def)

lemma set_V_fields [simp]:
  "V (set_V s x v) = (V s)(x := v)"
  "memory (set_V s x v) = memory s" "I (set_V s x v) = I s" "pc (set_V s x v) = pc s"
  "sp (set_V s x v) = sp s" "stack (set_V s x v) = stack s"
  "delay_timer (set_V s x v) = delay_timer s" "sound_timer (set_V s x v) = sound_timer s"
  "keypad (set_V s x v) = keypad s" "display (set_V s x v) = display s"
  "draw_flag (set_V s x v) = draw_flag s"
  by (simp_all add: set_V_def)

end
