(* ===== verification/Alu.thy ===== *)
theory Alu
  imports State
begin

text \<open>
  The \<open>8xy_\<close> family, \<open>execute_arithmetic\<close> of \<^verbatim>\<open>src/chip8.c\<close>. Each case
  is written as the C statements are, in their order: the flag register
  \<open>V[0xF]\<close> is written first and the result second, and the second statement
  reads the registers after the first. Where \<open>x\<close> or \<open>y\<close> is \<open>0xF\<close> this
  order decides the outcome, and the lemmas below state both situations.
\<close>

definition execute_arithmetic :: "chip8 \<Rightarrow> nat \<Rightarrow> nat \<Rightarrow> u8 \<Rightarrow> chip8" where
  "execute_arithmetic s x y op =
    (if op = 0x0 then set_V s x (V s y)
     else if op = 0x1 then set_V s x (V s x OR V s y)
     else if op = 0x2 then set_V s x (V s x AND V s y)
     else if op = 0x3 then set_V s x (V s x XOR V s y)
     else if op = 0x4 then
       (let sum = (ucast (V s x) + ucast (V s y) :: u16);
            s1 = set_V s 0xF (if sum > 0xFF then 1 else 0)
        in set_V s1 x (ucast (sum AND 0xFF)))
     else if op = 0x5 then
       (let s1 = set_V s 0xF (if V s x \<ge> V s y then 1 else 0)
        in set_V s1 x (V s1 x - V s1 y))
     else if op = 0x6 then
       (let s1 = set_V s 0xF (V s x AND 0x1)
        in set_V s1 x (drop_bit 1 (V s1 x)))
     else if op = 0x7 then
       (let s1 = set_V s 0xF (if V s y \<ge> V s x then 1 else 0)
        in set_V s1 x (V s1 y - V s1 x))
     else if op = 0xE then
       (let s1 = set_V s 0xF (drop_bit 7 (V s x AND 0x80))
        in set_V s1 x (push_bit 1 (V s1 x)))
     else s)"

subsection \<open>Frame and unknown sub-opcodes\<close>

lemma execute_arithmetic_frame [frame_simps]:
  "(execute_arithmetic s x y op)\<lparr>V := V s\<rparr> = s"
  by (simp add: execute_arithmetic_def set_V_def Let_def)

text \<open>Everything but the register file, in the form the cycle lemmas use.\<close>

lemma execute_arithmetic_fields [simp]:
  "memory (execute_arithmetic s x y op) = memory s" "I (execute_arithmetic s x y op) = I s"
  "pc (execute_arithmetic s x y op) = pc s" "sp (execute_arithmetic s x y op) = sp s"
  "stack (execute_arithmetic s x y op) = stack s"
  "delay_timer (execute_arithmetic s x y op) = delay_timer s"
  "sound_timer (execute_arithmetic s x y op) = sound_timer s"
  "keypad (execute_arithmetic s x y op) = keypad s"
  "display (execute_arithmetic s x y op) = display s"
  "draw_flag (execute_arithmetic s x y op) = draw_flag s"
  by (simp_all add: execute_arithmetic_def Let_def)

text \<open>Registers other than \<open>Vx\<close> and \<open>VF\<close> are never written.\<close>

lemma execute_arithmetic_other_regs:
  "r \<noteq> x \<Longrightarrow> r \<noteq> 0xF \<Longrightarrow> V (execute_arithmetic s x y op) r = V s r"
  by (simp add: execute_arithmetic_def Let_def)

subsection \<open>Results and flags\<close>

lemma bit0_flag: "(w AND 0x1 :: u8) = (if bit w 0 then 1 else 0)"
  by (rule bit_eqI) (auto simp: bit_simps intro: gr0I)

lemma bit7_flag: "drop_bit 7 (w AND 0x80 :: u8) = (if bit w 7 then 1 else 0)"
  by (rule bit_eqI) (auto simp: bit_simps intro: gr0I)

subsection \<open>The arithmetic instructions\<close>

text \<open>
  C1. \<open>8xy4\<close> with \<open>x \<noteq> F\<close>: \<open>Vx\<close> becomes \<open>(Vx + Vy) mod 256\<close> and \<open>VF\<close>
  becomes 1 exactly when the unreduced sum exceeds 255; no other register changes.
\<close>

theorem alu_add:
  "x \<noteq> 0xF \<Longrightarrow>
   V (execute_arithmetic s x y 0x4) =
     (V s)(0xF := (if 255 < unat (V s x) + unat (V s y) then 1 else 0), x := V s x + V s y)"
  by (simp add: execute_arithmetic_def Let_def u16_sum_carry u16_sum_low)

theorem alu_add_witness:
  "(1::nat) \<noteq> 0xF \<and>
   V (execute_arithmetic (chip8_init\<lparr>V := (\<lambda>_. 0)(1 := 200, 2 := 100, 0xF := 7)\<rparr>) 1 2 0x4) 1 = 44 \<and>
   V (execute_arithmetic (chip8_init\<lparr>V := (\<lambda>_. 0)(1 := 200, 2 := 100, 0xF := 7)\<rparr>) 1 2 0x4) 0xF = 1"
  using alu_add [of 1 "chip8_init\<lparr>V := (\<lambda>_. 0)(1 := 200, 2 := 100, 0xF := 7)\<rparr>" 2] by simp

text \<open>
  C2. \<open>8Fy4\<close>: the flag is written first and the sum second, so the sum
  \<open>VF + Vy\<close> overwrites the carry and the carry is lost.
\<close>

theorem alu_add_flag_overwritten:
  "V (execute_arithmetic s 0xF y 0x4) = (V s)(0xF := V s 0xF + V s y)"
  by (simp add: execute_arithmetic_def Let_def u16_sum_low)

text \<open>
  C3. \<open>8xy5\<close> with \<open>x, y \<noteq> F\<close>: \<open>Vx\<close> becomes \<open>(Vx - Vy) mod 256\<close> and \<open>VF\<close>
  becomes 1 exactly when \<open>Vx \<ge> Vy\<close> (no borrow).
\<close>

theorem alu_sub:
  "x \<noteq> 0xF \<Longrightarrow> y \<noteq> 0xF \<Longrightarrow>
   V (execute_arithmetic s x y 0x5) =
     (V s)(0xF := (if unat (V s y) \<le> unat (V s x) then 1 else 0), x := V s x - V s y)"
  by (simp add: execute_arithmetic_def Let_def word_le_nat_alt)

theorem alu_sub_witness:
  "(1::nat) \<noteq> 0xF \<and> (2::nat) \<noteq> 0xF \<and>
   V (execute_arithmetic (chip8_init\<lparr>V := (\<lambda>_. 0)(1 := 200, 2 := 100, 0xF := 7)\<rparr>) 2 1 0x5) 2 = 156 \<and>
   V (execute_arithmetic (chip8_init\<lparr>V := (\<lambda>_. 0)(1 := 200, 2 := 100, 0xF := 7)\<rparr>) 2 1 0x5) 0xF = 0"
  using alu_sub [of 2 1 "chip8_init\<lparr>V := (\<lambda>_. 0)(1 := 200, 2 := 100, 0xF := 7)\<rparr>"] by simp

text \<open>
  C4. \<open>8xF5\<close> with \<open>x \<noteq> F\<close>: the subtraction reads \<open>VF\<close> after the flag has
  been written, so \<open>Vx\<close> becomes \<open>Vx - flag\<close>, not \<open>Vx - VF\<close>.
\<close>

theorem alu_sub_flag_subtrahend:
  "x \<noteq> 0xF \<Longrightarrow>
   V (execute_arithmetic s x 0xF 0x5) =
     (let f = (if V s 0xF \<le> V s x then 1 else 0) in (V s)(0xF := f, x := V s x - f))"
  by (simp add: execute_arithmetic_def Let_def)

theorem alu_sub_flag_subtrahend_witness:
  "(1::nat) \<noteq> 0xF \<and>
   V (execute_arithmetic (chip8_init\<lparr>V := (\<lambda>_. 0)(1 := 200, 2 := 100, 0xF := 7)\<rparr>) 1 0xF 0x5) 1 = 199"
  using alu_sub_flag_subtrahend [of 1 "chip8_init\<lparr>V := (\<lambda>_. 0)(1 := 200, 2 := 100, 0xF := 7)\<rparr>"] by simp

text \<open>
  C5. \<open>8xy7\<close> with \<open>x, y \<noteq> F\<close>: \<open>Vx\<close> becomes \<open>(Vy - Vx) mod 256\<close> and \<open>VF\<close>
  becomes 1 exactly when \<open>Vy \<ge> Vx\<close>.
\<close>

theorem alu_subn:
  "x \<noteq> 0xF \<Longrightarrow> y \<noteq> 0xF \<Longrightarrow>
   V (execute_arithmetic s x y 0x7) =
     (V s)(0xF := (if unat (V s x) \<le> unat (V s y) then 1 else 0), x := V s y - V s x)"
  by (simp add: execute_arithmetic_def Let_def word_le_nat_alt)

theorem alu_subn_witness:
  "(2::nat) \<noteq> 0xF \<and> (1::nat) \<noteq> 0xF \<and>
   V (execute_arithmetic (chip8_init\<lparr>V := (\<lambda>_. 0)(1 := 200, 2 := 100, 0xF := 7)\<rparr>) 2 1 0x7) 2 = 100 \<and>
   V (execute_arithmetic (chip8_init\<lparr>V := (\<lambda>_. 0)(1 := 200, 2 := 100, 0xF := 7)\<rparr>) 2 1 0x7) 0xF = 1"
  using alu_subn [of 2 1 "chip8_init\<lparr>V := (\<lambda>_. 0)(1 := 200, 2 := 100, 0xF := 7)\<rparr>"] by simp

text \<open>
  C6. \<open>8xy6\<close> with \<open>x \<noteq> F\<close>: \<open>Vx\<close> is shifted right by one and \<open>VF\<close> holds the
  bit shifted out (bit 0).
\<close>

theorem alu_shr:
  "x \<noteq> 0xF \<Longrightarrow>
   V (execute_arithmetic s x y 0x6) =
     (V s)(0xF := (if bit (V s x) 0 then 1 else 0), x := drop_bit 1 (V s x))"
  by (simp add: execute_arithmetic_def Let_def bit0_flag)

theorem alu_shr_witness:
  "(1::nat) \<noteq> 0xF \<and>
   V (execute_arithmetic (chip8_init\<lparr>V := (\<lambda>_. 0)(1 := 200, 2 := 100, 0xF := 7)\<rparr>) 1 0 0x6) 1 = 100 \<and>
   V (execute_arithmetic (chip8_init\<lparr>V := (\<lambda>_. 0)(1 := 200, 2 := 100, 0xF := 7)\<rparr>) 1 0 0x6) 0xF = 0"
  using alu_shr [of 1 "chip8_init\<lparr>V := (\<lambda>_. 0)(1 := 200, 2 := 100, 0xF := 7)\<rparr>" 0] by simp

text \<open>
  C7. \<open>8xyE\<close> with \<open>x \<noteq> F\<close>: \<open>Vx\<close> is shifted left by one, truncated to 8 bits,
  and \<open>VF\<close> holds the bit shifted out (bit 7).
\<close>

theorem alu_shl:
  "x \<noteq> 0xF \<Longrightarrow>
   V (execute_arithmetic s x y 0xE) =
     (V s)(0xF := (if bit (V s x) 7 then 1 else 0), x := push_bit 1 (V s x))"
  unfolding execute_arithmetic_def Let_def bit7_flag by simp

theorem alu_shl_witness:
  "(1::nat) \<noteq> 0xF \<and>
   V (execute_arithmetic (chip8_init\<lparr>V := (\<lambda>_. 0)(1 := 200, 2 := 100, 0xF := 7)\<rparr>) 1 0 0xE) 1 = 144 \<and>
   V (execute_arithmetic (chip8_init\<lparr>V := (\<lambda>_. 0)(1 := 200, 2 := 100, 0xF := 7)\<rparr>) 1 0 0xE) 0xF = 1"
  using alu_shl [of 1 "chip8_init\<lparr>V := (\<lambda>_. 0)(1 := 200, 2 := 100, 0xF := 7)\<rparr>" 0] by simp

text \<open>
  C8. A sub-opcode of the \<open>8xy_\<close> family outside \<open>0-7, E\<close> leaves the state
  unchanged (no error is raised).
\<close>

theorem alu_unknown_op:
  "op \<notin> {0x0, 0x1, 0x2, 0x3, 0x4, 0x5, 0x6, 0x7, 0xE} \<Longrightarrow> execute_arithmetic s x y op = s"
  by (simp add: execute_arithmetic_def)

theorem alu_unknown_op_witness:
  "(0x8::u8) \<notin> {0x0, 0x1, 0x2, 0x3, 0x4, 0x5, 0x6, 0x7, 0xE} \<and>
   execute_arithmetic chip8_init 1 2 0x8 = chip8_init"
  using alu_unknown_op [of "0x8" chip8_init 1 2] by simp

end
