(* ===== verification/Display.thy ===== *)
theory Display
  imports State
begin

text \<open>
  The display engine of \<^verbatim>\<open>src/chip8.c\<close>: \<open>execute_draw\<close> (the \<open>Dxyn\<close>
  sprite blit) with its two nested loops, and \<open>chip8_get_pixel\<close>. A row of
  the framebuffer is one \<open>uint32_t\<close>, pixel \<open>px\<close> its bit \<open>px\<close>, set through
  the mask \<open>1U << px\<close>. That shift is undefined in C for \<open>px \<ge> 32\<close>, although
  \<open>DISPLAY_WIDTH\<close> is 64; the model returns \<open>Shift_out_of_range px\<close> there.
  The inner loop is \<open>draw_cols\<close>, the outer one \<open>draw_rows\<close>; both are
  \<^theory_text>\<open>function\<close>s whose measure is the number of iterations left.
\<close>

subsection \<open>The sprite blit\<close>

function draw_cols :: "u8 \<Rightarrow> nat \<Rightarrow> nat \<Rightarrow> nat \<Rightarrow> chip8 \<Rightarrow> fault + chip8" where
  "draw_cols sprite_byte x_pos py col s =
     (if col < 8 then
        (if DISPLAY_WIDTH \<le> x_pos + col then Inr s
         else if sprite_byte AND drop_bit col 0x80 \<noteq> 0 then
           (let px = x_pos + col in
            if 32 \<le> px then Inl (Shift_out_of_range px)
            else
              (let mask = push_bit px 1 :: u32;
                   s1 = (if display s py AND mask \<noteq> 0 then set_V s 0xF 1 else s)
               in draw_cols sprite_byte x_pos py (Suc col)
                    (s1\<lparr>display := (display s1)(py := display s1 py XOR mask)\<rparr>)))
         else draw_cols sprite_byte x_pos py (Suc col) s)
      else Inr s)"
  by pat_completeness auto
termination
  by (relation "measure (\<lambda>(_, _, _, col, _). 8 - col)") auto

function draw_rows :: "nat \<Rightarrow> nat \<Rightarrow> nat \<Rightarrow> nat \<Rightarrow> chip8 \<Rightarrow> fault + chip8" where
  "draw_rows height x_pos y_pos row s =
     (if row < height then
        (if DISPLAY_HEIGHT \<le> y_pos + row then Inr s
         else
           (case mem_read s (unat (I s) + row) of
              Inl e \<Rightarrow> Inl e
            | Inr sprite_byte \<Rightarrow>
                (case draw_cols sprite_byte x_pos (y_pos + row) 0 s of
                   Inl e \<Rightarrow> Inl e
                 | Inr s' \<Rightarrow> draw_rows height x_pos y_pos (Suc row) s')))
      else Inr s)"
  by pat_completeness auto
termination
  by (relation "measure (\<lambda>(height, _, _, row, _). height - row)") auto

declare draw_cols.simps [simp del] draw_rows.simps [simp del]

definition execute_draw :: "chip8 \<Rightarrow> nat \<Rightarrow> nat \<Rightarrow> u8 \<Rightarrow> fault + chip8" where
  "execute_draw s x y height =
     (let x_pos = unat (V s x) mod DISPLAY_WIDTH;
          y_pos = unat (V s y) mod DISPLAY_HEIGHT;
          s1 = set_V s 0xF 0
      in ebind (draw_rows (unat height) x_pos y_pos 0 s1) (\<lambda>s2. Inr (s2\<lparr>draw_flag := True\<rparr>)))"

subsection \<open>Reading a pixel\<close>

definition chip8_get_pixel :: "chip8 \<Rightarrow> u8 \<Rightarrow> u8 \<Rightarrow> fault + bool" where
  "chip8_get_pixel s x y =
     (if DISPLAY_WIDTH \<le> unat x \<or> DISPLAY_HEIGHT \<le> unat y then Inr False
      else if 32 \<le> unat x then Inl (Shift_out_of_range (unat x))
      else Inr (display s (unat y) AND push_bit (unat x) 1 \<noteq> 0))"

subsection \<open>Pixel-level specification of a blit\<close>

text \<open>
  What \<open>Dxyn\<close> should do, stated on pixels (spec, section 4.3): the sprite
  byte \<open>b\<close> of a row hits column \<open>px\<close> when \<open>px = x_pos + c\<close> for a column
  \<open>c < 8\<close> of the sprite (from \<open>col\<close> on) whose bit \<open>7 - c\<close> is set, clipped at
  the right edge; a whole blit of \<open>height\<close> rows from memory at \<open>I\<close> hits
  pixel \<open>(px, py)\<close> when row \<open>py - y_pos\<close> (from \<open>row\<close> on) hits \<open>px\<close>,
  clipped at the bottom edge. Every hit pixel is toggled, and the collision flag
  is set when a hit pixel was already set.
\<close>

definition sprite_hit :: "u8 \<Rightarrow> nat \<Rightarrow> nat \<Rightarrow> nat \<Rightarrow> bool" where
  "sprite_hit sprite_byte x_pos col px \<longleftrightarrow>
     x_pos + col \<le> px \<and> px < x_pos + 8 \<and> px < DISPLAY_WIDTH \<and> bit sprite_byte (7 - (px - x_pos))"

definition draw_hit :: "chip8 \<Rightarrow> nat \<Rightarrow> nat \<Rightarrow> nat \<Rightarrow> nat \<Rightarrow> nat \<Rightarrow> nat \<Rightarrow> bool" where
  "draw_hit s height x_pos y_pos row px py \<longleftrightarrow>
     y_pos + row \<le> py \<and> py < y_pos + height \<and> py < DISPLAY_HEIGHT \<and>
     sprite_hit (memory s (unat (I s) + (py - y_pos))) x_pos 0 px"

subsection \<open>The inner loop: one sprite row\<close>

lemma sprite_hit_stop: "8 \<le> col \<or> DISPLAY_WIDTH \<le> x_pos + col \<Longrightarrow> \<not> sprite_hit b x_pos col px"
  by (auto simp: sprite_hit_def)

lemma sprite_hit_step:
  "col < 8 \<Longrightarrow> x_pos + col < DISPLAY_WIDTH \<Longrightarrow>
   sprite_hit b x_pos col px \<longleftrightarrow>
     (px = x_pos + col \<and> bit b (7 - col)) \<or> sprite_hit b x_pos (Suc col) px"
  by (cases "px = x_pos + col") (auto simp: sprite_hit_def)

lemma sprite_hit_Suc_gt: "sprite_hit b x_pos (Suc col) px \<Longrightarrow> x_pos + col < px"
  by (simp add: sprite_hit_def)

lemma draw_cols_Inr:
  "draw_cols b x_pos py col s = Inr s' \<Longrightarrow>
     (\<forall>px. sprite_hit b x_pos col px \<longrightarrow> px < 32) \<and>
     (\<forall>q. bit (display s' py) q \<longleftrightarrow> bit (display s py) q \<noteq> sprite_hit b x_pos col q) \<and>
     V s' = (if \<exists>q. sprite_hit b x_pos col q \<and> bit (display s py) q
             then (V s)(0xF := 1) else V s) \<and>
     s' = s\<lparr>display := (display s)(py := display s' py), V := V s'\<rparr>"
proof (induction b x_pos py col s arbitrary: s' rule: draw_cols.induct)
  case (1 b x_pos py col s)
  show ?case
  proof (cases "col < 8 \<and> x_pos + col < DISPLAY_WIDTH")
    case False
    with "1.prems" have "s' = s"
      by (auto simp: draw_cols.simps [of b x_pos py col s] split: if_splits)
    with False show ?thesis
      by (auto simp: sprite_hit_stop)
  next
    case go: True
    then have c1: "col < 8" and c2: "\<not> DISPLAY_WIDTH \<le> x_pos + col" by auto
    show ?thesis
    proof (cases "bit b (7 - col)")
      case False
      then have c3: "\<not> b AND drop_bit col 0x80 \<noteq> 0" by (simp add: sprite_bit c1)
      with c1 c2 "1.prems" have rec: "draw_cols b x_pos py (Suc col) s = Inr s'"
        by (simp add: draw_cols.simps [of b x_pos py col s])
      have hit: "\<And>q. sprite_hit b x_pos col q \<longleftrightarrow> sprite_hit b x_pos (Suc col) q"
        using c1 c2 False by (simp add: sprite_hit_step)
      show ?thesis
        unfolding hit by (rule "1.IH"(2) [OF c1 c2 c3 rec])
    next
      case set: True
      then have c3: "b AND drop_bit col 0x80 \<noteq> 0" by (simp add: sprite_bit c1)
      let ?px = "x_pos + col"
      let ?s1 = "if display s py AND push_bit ?px 1 \<noteq> 0 then set_V s 0xF 1 else s"
      let ?s2 = "?s1\<lparr>display := (display ?s1)(py := display ?s1 py XOR push_bit ?px 1)\<rparr>"
      from c1 c2 c3 "1.prems" have px: "\<not> 32 \<le> ?px"
        by (auto simp: draw_cols.simps [of b x_pos py col s] Let_def split: if_splits)
      from c1 c2 c3 px "1.prems" have rec: "draw_cols b x_pos py (Suc col) ?s2 = Inr s'"
        by (simp add: draw_cols.simps [of b x_pos py col s] Let_def)
      note IH = "1.IH"(1) [OF c1 c2 c3 refl px refl refl rec]
      have hit: "\<And>q. sprite_hit b x_pos col q \<longleftrightarrow> q = ?px \<or> sprite_hit b x_pos (Suc col) q"
        using c1 c2 set by (auto simp: sprite_hit_step)
      have excl: "\<And>q. sprite_hit b x_pos (Suc col) q \<Longrightarrow> q \<noteq> ?px"
        using sprite_hit_Suc_gt by fastforce
      have "\<forall>q. sprite_hit b x_pos col q \<longrightarrow> q < 32"
        using IH px hit by auto
      moreover have "\<forall>q. bit (display s' py) q \<longleftrightarrow> bit (display s py) q \<noteq> sprite_hit b x_pos col q"
        using IH px hit excl by (auto simp: bit_xor_mask)
      moreover have "V s' = (if \<exists>q. sprite_hit b x_pos col q \<and> bit (display s py) q
                             then (V s)(0xF := 1) else V s)"
      proof -
        have v2: "V ?s2 = (if bit (display s py) ?px then (V s)(0xF := 1) else V s)"
          using px by (simp add: and_mask_nonzero)
        have d2: "sprite_hit b x_pos (Suc col) q \<Longrightarrow>
                  bit (display ?s2 py) q \<longleftrightarrow> bit (display s py) q" for q
          using excl [of q] by (simp add: bit_xor_mask)
        have "(\<exists>q. sprite_hit b x_pos (Suc col) q \<and> bit (display ?s2 py) q) \<longleftrightarrow>
              (\<exists>q. sprite_hit b x_pos (Suc col) q \<and> bit (display s py) q)"
          using d2 by blast
        with IH v2 hit show ?thesis by auto
      qed
      moreover have "s' = s\<lparr>display := (display s)(py := display s' py), V := V s'\<rparr>"
      proof -
        from IH have fr: "s' = ?s2\<lparr>display := (display ?s2)(py := display s' py), V := V s'\<rparr>"
          by blast
        have "?s2\<lparr>display := (display ?s2)(py := display s' py), V := V s'\<rparr> =
              s\<lparr>display := (display s)(py := display s' py), V := V s'\<rparr>"
          by (simp add: set_V_def)
        with fr show ?thesis by simp
      qed
      ultimately show ?thesis by blast
    qed
  qed
qed

lemma draw_cols_no_fault:
  "\<forall>px. sprite_hit b x_pos col px \<longrightarrow> px < 32 \<Longrightarrow> \<exists>s'. draw_cols b x_pos py col s = Inr s'"
proof (induction b x_pos py col s rule: draw_cols.induct)
  case (1 b x_pos py col s)
  show ?case
  proof (cases "col < 8 \<and> x_pos + col < DISPLAY_WIDTH")
    case False
    then show ?thesis by (auto simp: draw_cols.simps [of b x_pos py col s])
  next
    case go: True
    then have c1: "col < 8" and c2: "\<not> DISPLAY_WIDTH \<le> x_pos + col" by auto
    have hit: "\<And>q. sprite_hit b x_pos col q \<longleftrightarrow>
                 (q = x_pos + col \<and> bit b (7 - col)) \<or> sprite_hit b x_pos (Suc col) q"
      using c1 c2 by (simp add: sprite_hit_step)
    show ?thesis
    proof (cases "bit b (7 - col)")
      case False
      then have c3: "\<not> b AND drop_bit col 0x80 \<noteq> 0" by (simp add: sprite_bit c1)
      from "1.prems" hit have "\<forall>q. sprite_hit b x_pos (Suc col) q \<longrightarrow> q < 32" by blast
      with "1.IH"(2) [OF c1 c2 c3] c1 c2 c3 show ?thesis
        by (simp add: draw_cols.simps [of b x_pos py col s])
    next
      case set: True
      then have c3: "b AND drop_bit col 0x80 \<noteq> 0" by (simp add: sprite_bit c1)
      from "1.prems" hit set have px: "\<not> 32 \<le> x_pos + col" by auto
      from "1.prems" hit have "\<forall>q. sprite_hit b x_pos (Suc col) q \<longrightarrow> q < 32" by blast
      with "1.IH"(1) [OF c1 c2 c3 refl px refl refl] c1 c2 c3 px show ?thesis
        by (simp add: draw_cols.simps [of b x_pos py col s] Let_def)
    qed
  qed
qed

subsection \<open>The outer loop: all sprite rows\<close>

lemma draw_hit_stop:
  "height \<le> row \<or> DISPLAY_HEIGHT \<le> y_pos + row \<Longrightarrow> \<not> draw_hit s height x_pos y_pos row px py"
  by (auto simp: draw_hit_def)

lemma draw_hit_step:
  "row < height \<Longrightarrow> y_pos + row < DISPLAY_HEIGHT \<Longrightarrow>
   draw_hit s height x_pos y_pos row px py \<longleftrightarrow>
     (py = y_pos + row \<and> sprite_hit (memory s (unat (I s) + row)) x_pos 0 px) \<or>
     draw_hit s height x_pos y_pos (Suc row) px py"
  by (cases "py = y_pos + row") (auto simp: draw_hit_def)

lemma draw_hit_Suc_gt: "draw_hit s height x_pos y_pos (Suc row) px py \<Longrightarrow> y_pos + row < py"
  by (simp add: draw_hit_def)

lemma draw_hit_cong:
  "memory t = memory s \<Longrightarrow> I t = I s \<Longrightarrow> draw_hit t = draw_hit s"
  by (simp add: draw_hit_def fun_eq_iff)

lemma draw_rows_Inr:
  "draw_rows height x_pos y_pos row s = Inr s' \<Longrightarrow>
     (\<forall>r. row \<le> r \<and> r < height \<and> y_pos + r < DISPLAY_HEIGHT \<longrightarrow> unat (I s) + r < MEMORY_SIZE) \<and>
     (\<forall>px py. draw_hit s height x_pos y_pos row px py \<longrightarrow> px < 32) \<and>
     (\<forall>py q. bit (display s' py) q \<longleftrightarrow> bit (display s py) q \<noteq> draw_hit s height x_pos y_pos row q py) \<and>
     V s' = (if \<exists>q py. draw_hit s height x_pos y_pos row q py \<and> bit (display s py) q
             then (V s)(0xF := 1) else V s) \<and>
     s' = s\<lparr>display := display s', V := V s'\<rparr>"
proof (induction height x_pos y_pos row s arbitrary: s' rule: draw_rows.induct)
  case (1 height x_pos y_pos row s)
  show ?case
  proof (cases "row < height \<and> y_pos + row < DISPLAY_HEIGHT")
    case False
    with "1.prems" have "s' = s"
      by (auto simp: draw_rows.simps [of height x_pos y_pos row s] split: if_splits)
    with False show ?thesis
      by (auto simp: draw_hit_stop)
  next
    case go: True
    then have c1: "row < height" and c2: "\<not> DISPLAY_HEIGHT \<le> y_pos + row" by auto
    let ?b = "memory s (unat (I s) + row)"
    from go "1.prems" have mem: "unat (I s) + row < MEMORY_SIZE"
      by (auto simp: draw_rows.simps [of height x_pos y_pos row s] mem_read_def split: if_splits)
    then have rd: "mem_read s (unat (I s) + row) = Inr ?b" by simp
    from go "1.prems" mem obtain s1 where
      s1: "draw_cols ?b x_pos (y_pos + row) 0 s = Inr s1" and
      rec: "draw_rows height x_pos y_pos (Suc row) s1 = Inr s'"
      by (auto simp: draw_rows.simps [of height x_pos y_pos row s] split: sum.splits)
    note cols = draw_cols_Inr [OF s1]
    from cols have fr: "s1 = s\<lparr>display := (display s)(y_pos + row := display s1 (y_pos + row)), V := V s1\<rparr>"
      by blast
    have same: "memory s1 = memory s" "I s1 = I s"
      using arg_cong [OF fr, of memory] arg_cong [OF fr, of I] by simp_all
    note IH = "1.IH" [OF c1 c2 rd s1 rec, unfolded draw_hit_cong [OF same] same]
    note IHm = IH [THEN conjunct1] and IHh = IH [THEN conjunct2, THEN conjunct1]
      and IHd = IH [THEN conjunct2, THEN conjunct2, THEN conjunct1]
      and IHv = IH [THEN conjunct2, THEN conjunct2, THEN conjunct2, THEN conjunct1]
      and IHf = IH [THEN conjunct2, THEN conjunct2, THEN conjunct2, THEN conjunct2]
    note Ch = cols [THEN conjunct1] and Cd = cols [THEN conjunct2, THEN conjunct1]
      and Cv = cols [THEN conjunct2, THEN conjunct2, THEN conjunct1]
    let ?py = "y_pos + row"
    have hit: "\<And>q py. draw_hit s height x_pos y_pos row q py \<longleftrightarrow>
                 (py = ?py \<and> sprite_hit ?b x_pos 0 q) \<or> draw_hit s height x_pos y_pos (Suc row) q py"
      using c1 c2 by (simp add: draw_hit_step)
    have other: "display s1 py = display s py" if "py \<noteq> ?py" for py
      using fun_cong [OF arg_cong [OF fr, of display], of py] that by simp
    have "\<forall>r. row \<le> r \<and> r < height \<and> y_pos + r < DISPLAY_HEIGHT \<longrightarrow> unat (I s) + r < MEMORY_SIZE"
      using IHm mem by (metis Suc_leI le_neq_implies_less)
    moreover have "\<forall>px py. draw_hit s height x_pos y_pos row px py \<longrightarrow> px < 32"
      using IHh Ch hit by blast
    moreover have "\<forall>py q. bit (display s' py) q \<longleftrightarrow> bit (display s py) q \<noteq> draw_hit s height x_pos y_pos row q py"
    proof (intro allI)
      fix py q
      show "bit (display s' py) q \<longleftrightarrow> bit (display s py) q \<noteq> draw_hit s height x_pos y_pos row q py"
      proof (cases "py = ?py")
        case True
        have ns: "\<not> draw_hit s height x_pos y_pos (Suc row) q py"
          using True draw_hit_Suc_gt by fastforce
        have "bit (display s' py) q \<longleftrightarrow> bit (display s1 py) q"
          using IHd ns by simp
        also have "\<dots> \<longleftrightarrow> bit (display s py) q \<noteq> sprite_hit ?b x_pos 0 q"
          using Cd True by simp
        also have "\<dots> \<longleftrightarrow> bit (display s py) q \<noteq> draw_hit s height x_pos y_pos row q py"
          using hit ns True by simp
        finally show ?thesis .
      next
        case False
        then show ?thesis using IHd hit other by auto
      qed
    qed
    moreover have "V s' = (if \<exists>q py. draw_hit s height x_pos y_pos row q py \<and> bit (display s py) q
                           then (V s)(0xF := 1) else V s)"
    proof -
      have "(\<exists>q py. draw_hit s height x_pos y_pos (Suc row) q py \<and> bit (display s1 py) q) \<longleftrightarrow>
            (\<exists>q py. draw_hit s height x_pos y_pos (Suc row) q py \<and> bit (display s py) q)"
        using other draw_hit_Suc_gt by (metis less_irrefl)
      then show ?thesis using IHv Cv hit by auto
    qed
    moreover have "s' = s\<lparr>display := display s', V := V s'\<rparr>"
    proof -
      note fr' = IHf
      have "s1\<lparr>display := display s', V := V s'\<rparr> = s\<lparr>display := display s', V := V s'\<rparr>"
        by (subst fr) simp
      with fr' show ?thesis by simp
    qed
    ultimately show ?thesis by blast
  qed
qed

lemma draw_cols_same:
  "draw_cols b x_pos py col s = Inr s' \<Longrightarrow> memory s' = memory s \<and> I s' = I s"
proof -
  assume "draw_cols b x_pos py col s = Inr s'"
  then have fr: "s' = s\<lparr>display := (display s)(py := display s' py), V := V s'\<rparr>"
    using draw_cols_Inr by blast
  show ?thesis
    using arg_cong [OF fr, of memory] arg_cong [OF fr, of I] by simp
qed

lemma draw_rows_no_fault:
  "\<forall>r. row \<le> r \<and> r < height \<and> y_pos + r < DISPLAY_HEIGHT \<longrightarrow> unat (I s) + r < MEMORY_SIZE \<Longrightarrow>
   \<forall>px py. draw_hit s height x_pos y_pos row px py \<longrightarrow> px < 32 \<Longrightarrow>
   \<exists>s'. draw_rows height x_pos y_pos row s = Inr s'"
proof (induction height x_pos y_pos row s rule: draw_rows.induct)
  case (1 height x_pos y_pos row s)
  show ?case
  proof (cases "row < height \<and> y_pos + row < DISPLAY_HEIGHT")
    case False
    then show ?thesis by (auto simp: draw_rows.simps [of height x_pos y_pos row s])
  next
    case go: True
    then have c1: "row < height" and c2: "\<not> DISPLAY_HEIGHT \<le> y_pos + row" by auto
    let ?b = "memory s (unat (I s) + row)"
    have mem: "unat (I s) + row < MEMORY_SIZE" using "1.prems"(1) go by blast
    then have rd: "mem_read s (unat (I s) + row) = Inr ?b" by simp
    have hit: "\<And>q py. draw_hit s height x_pos y_pos row q py \<longleftrightarrow>
                 (py = y_pos + row \<and> sprite_hit ?b x_pos 0 q) \<or> draw_hit s height x_pos y_pos (Suc row) q py"
      using c1 c2 by (simp add: draw_hit_step)
    have "\<forall>q. sprite_hit ?b x_pos 0 q \<longrightarrow> q < 32" using "1.prems"(2) hit by blast
    then obtain s1 where s1: "draw_cols ?b x_pos (y_pos + row) 0 s = Inr s1"
      using draw_cols_no_fault by blast
    note same = draw_cols_same [OF s1]
    have "\<forall>r. Suc row \<le> r \<and> r < height \<and> y_pos + r < DISPLAY_HEIGHT \<longrightarrow> unat (I s1) + r < MEMORY_SIZE"
      using "1.prems"(1) same by auto
    moreover have "\<forall>px py. draw_hit s1 height x_pos y_pos (Suc row) px py \<longrightarrow> px < 32"
      using "1.prems"(2) hit draw_hit_cong [of s1 s] same by auto
    ultimately obtain s' where rec: "draw_rows height x_pos y_pos (Suc row) s1 = Inr s'"
      using "1.IH" [OF c1 c2 rd s1] by blast
    have "draw_rows height x_pos y_pos row s = Inr s'"
      using c1 c2 by (simp add: draw_rows.simps [of height x_pos y_pos row s] rd s1 rec)
    then show ?thesis ..
  qed
qed

subsection \<open>Where a blit faults\<close>



lemma draw_hit_set_V [simp]: "draw_hit (set_V s r v) = draw_hit s"
  by (rule draw_hit_cong) simp_all

lemma execute_draw_frame:
  "execute_draw s x y n = Inr t \<Longrightarrow> \<exists>d v. t = s\<lparr>display := d, V := v, draw_flag := True\<rparr>"
proof -
  assume "execute_draw s x y n = Inr t"
  then obtain x_pos y_pos s2 where rows: "draw_rows (unat n) x_pos y_pos 0 (set_V s 0xF 0) = Inr s2"
    and t: "t = s2\<lparr>draw_flag := True\<rparr>"
    by (auto simp: execute_draw_def Let_def)
  have fr: "s2 = (set_V s 0xF 0)\<lparr>display := display s2, V := V s2\<rparr>"
    using draw_rows_Inr [OF rows] by blast
  have "t = s\<lparr>display := display s2, V := V s2, draw_flag := True\<rparr>"
    by (subst t, subst (1) fr) (simp add: set_V_def)
  then show ?thesis by blast
qed

subsection \<open>The blit against its specification\<close>

text \<open>
  C9. When \<open>Dxyn\<close> completes, it toggles exactly the pixels the sprite hits
  (\<open>draw_hit\<close>, from \<open>Vx mod 64\<close>, \<open>Vy mod 32\<close>, \<open>n\<close> rows at \<open>I\<close>), sets
  \<open>VF\<close> to 1 exactly when one of them was already set and to 0 otherwise, sets
  the draw flag and changes nothing else.
\<close>

theorem execute_draw_refines:
  "execute_draw s x y n = Inr s' \<Longrightarrow>
   (let x_pos = unat (V s x) mod DISPLAY_WIDTH; y_pos = unat (V s y) mod DISPLAY_HEIGHT;
        hit = draw_hit s (unat n) x_pos y_pos 0
    in (\<forall>py q. bit (display s' py) q \<longleftrightarrow> bit (display s py) q \<noteq> hit q py) \<and>
       V s' = (V s)(0xF := if \<exists>q py. hit q py \<and> bit (display s py) q then 1 else 0) \<and>
       s' = s\<lparr>display := display s', V := V s', draw_flag := True\<rparr>)"
proof -
  assume ex: "execute_draw s x y n = Inr s'"
  define x_pos where "x_pos = unat (V s x) mod DISPLAY_WIDTH"
  define y_pos where "y_pos = unat (V s y) mod DISPLAY_HEIGHT"
  from ex obtain s2 where rows: "draw_rows (unat n) x_pos y_pos 0 (set_V s 0xF 0) = Inr s2"
    and s': "s' = s2\<lparr>draw_flag := True\<rparr>"
    by (auto simp: execute_draw_def x_pos_def y_pos_def Let_def)
  note R = draw_rows_Inr [OF rows, simplified]
  have "s' = s\<lparr>display := display s', V := V s', draw_flag := True\<rparr>"
  proof -
    from R have fr: "s2 = (set_V s 0xF 0)\<lparr>display := display s2, V := V s2\<rparr>" by blast
    have d: "display s' = display s2" and v: "V s' = V s2" using s' by simp_all
    show ?thesis unfolding d v by (subst s', subst (1) fr) (simp add: set_V_def)
  qed
  with R s' show ?thesis
    unfolding x_pos_def [symmetric] y_pos_def [symmetric] Let_def
    by (auto simp: fun_eq_iff)
qed

text \<open>
  C10. \<open>Dxyn\<close> completes exactly when every sprite row it reads lies inside
  memory and every pixel it hits lies in columns 0 to 31, the columns a 32-bit
  row word can hold; otherwise the C code shifts \<open>1U\<close> by 32 or more, or reads
  past \<open>memory[]\<close>.
\<close>

theorem execute_draw_succeeds:
  "(\<exists>s'. execute_draw s x y n = Inr s') \<longleftrightarrow>
   (let x_pos = unat (V s x) mod DISPLAY_WIDTH; y_pos = unat (V s y) mod DISPLAY_HEIGHT
    in (\<forall>r < unat n. y_pos + r < DISPLAY_HEIGHT \<longrightarrow> unat (I s) + r < MEMORY_SIZE) \<and>
       (\<forall>px py. draw_hit s (unat n) x_pos y_pos 0 px py \<longrightarrow> px < 32))"
proof -
  define x_pos where "x_pos = unat (V s x) mod DISPLAY_WIDTH"
  define y_pos where "y_pos = unat (V s y) mod DISPLAY_HEIGHT"
  have "(\<exists>s'. execute_draw s x y n = Inr s') \<longleftrightarrow>
        (\<exists>s2. draw_rows (unat n) x_pos y_pos 0 (set_V s 0xF 0) = Inr s2)"
    by (auto simp: execute_draw_def x_pos_def y_pos_def Let_def)
  also have "\<dots> \<longleftrightarrow> (\<forall>r < unat n. y_pos + r < DISPLAY_HEIGHT \<longrightarrow> unat (I s) + r < MEMORY_SIZE) \<and>
       (\<forall>px py. draw_hit s (unat n) x_pos y_pos 0 px py \<longrightarrow> px < 32)"
  proof
    assume "\<exists>s2. draw_rows (unat n) x_pos y_pos 0 (set_V s 0xF 0) = Inr s2"
    then obtain s2 where "draw_rows (unat n) x_pos y_pos 0 (set_V s 0xF 0) = Inr s2" ..
    from draw_rows_Inr [OF this] show "(\<forall>r < unat n. y_pos + r < DISPLAY_HEIGHT \<longrightarrow> unat (I s) + r < MEMORY_SIZE) \<and>
       (\<forall>px py. draw_hit s (unat n) x_pos y_pos 0 px py \<longrightarrow> px < 32)"
      by simp
  next
    assume "(\<forall>r < unat n. y_pos + r < DISPLAY_HEIGHT \<longrightarrow> unat (I s) + r < MEMORY_SIZE) \<and>
       (\<forall>px py. draw_hit s (unat n) x_pos y_pos 0 px py \<longrightarrow> px < 32)"
    then show "\<exists>s2. draw_rows (unat n) x_pos y_pos 0 (set_V s 0xF 0) = Inr s2"
      by (intro draw_rows_no_fault) auto
  qed
  finally show ?thesis by (simp add: x_pos_def y_pos_def Let_def)
qed

lemma display_eqI: "(\<And>py q. bit (display t py) q \<longleftrightarrow> bit (display s py) q) \<Longrightarrow> display t = display s"
  by (rule ext, rule bit_eqI) simp

text \<open>
  C11. Drawing the same sprite twice at the same coordinates (with \<open>x, y \<noteq> F\<close>,
  so that the first collision flag does not move the sprite) restores the
  framebuffer, and the second draw reports a collision exactly when some hit
  pixel was clear before the first draw.
\<close>

theorem draw_twice_restores:
  assumes first: "execute_draw s x y n = Inr s1" and "x \<noteq> 0xF" "y \<noteq> 0xF"
  shows "\<exists>s2. execute_draw s1 x y n = Inr s2 \<and> display s2 = display s \<and>
           (V s2 0xF = 1 \<longleftrightarrow>
            (\<exists>q py. draw_hit s (unat n) (unat (V s x) mod DISPLAY_WIDTH) (unat (V s y) mod DISPLAY_HEIGHT) 0 q py
                    \<and> \<not> bit (display s py) q))"
proof -
  let ?hit = "draw_hit s (unat n) (unat (V s x) mod DISPLAY_WIDTH) (unat (V s y) mod DISPLAY_HEIGHT) 0"
  note R1 = execute_draw_refines [OF first, unfolded Let_def]
  from R1 have fr: "s1 = s\<lparr>display := display s1, V := V s1, draw_flag := True\<rparr>" by blast
  have same: "memory s1 = memory s" "I s1 = I s"
    using arg_cong [OF fr, of memory] arg_cong [OF fr, of I] by simp_all
  have xy: "V s1 x = V s x" "V s1 y = V s y"
    using R1 assms(2,3) by simp_all
  have hit1: "draw_hit s1 (unat n) (unat (V s1 x) mod DISPLAY_WIDTH) (unat (V s1 y) mod DISPLAY_HEIGHT) 0 = ?hit"
    unfolding xy draw_hit_cong [OF same] ..
  have "\<exists>s'. execute_draw s x y n = Inr s'" using first ..
  then have "\<exists>s'. execute_draw s1 x y n = Inr s'"
    unfolding execute_draw_succeeds [of s1] execute_draw_succeeds [of s] Let_def xy same
      draw_hit_cong [OF same] .
  then obtain s2 where second: "execute_draw s1 x y n = Inr s2" ..
  note R2 = execute_draw_refines [OF second, unfolded Let_def hit1]
  have b1: "\<And>py q. bit (display s1 py) q \<longleftrightarrow> bit (display s py) q \<noteq> ?hit q py"
    using R1 by blast
  have "display s2 = display s"
    using R2 b1 by (intro display_eqI) auto
  moreover have "V s2 0xF = 1 \<longleftrightarrow> (\<exists>q py. ?hit q py \<and> \<not> bit (display s py) q)"
    using R2 b1 by auto
  ultimately show ?thesis using second by blast
qed

subsection \<open>Concrete blits\<close>

text \<open>The glyph of digit 0 (at address 0, where \<open>chip8_init\<close> leaves \<open>I\<close>) drawn at the origin.\<close>

lemma glyph0_draw:
  "execute_draw chip8_init 0 0 5 =
     Inr (chip8_init\<lparr>display := (\<lambda>_. 0)(0 := 0xF, 1 := 9, 2 := 9, 3 := 9, 4 := 0xF), draw_flag := True\<rparr>)"
  by (simp add: execute_draw_def chip8_init_def draw_rows.simps draw_cols.simps fontset_def
      set_V_def Let_def fun_eq_iff mem_read_def)

theorem execute_draw_refines_witness:
  "\<exists>s'. execute_draw chip8_init 0 0 5 = Inr s' \<and> V s' 0xF = 0"
proof -
  let ?g = "chip8_init\<lparr>display := (\<lambda>_. 0)(0 := 0xF, 1 := 9, 2 := 9, 3 := 9, 4 := 0xF), draw_flag := True\<rparr>"
  have "V ?g 0xF = 0"
    using execute_draw_refines [OF glyph0_draw] by (simp add: Let_def chip8_init_def)
  with glyph0_draw show ?thesis by blast
qed

theorem execute_draw_succeeds_witness:
  "(\<exists>s'. execute_draw chip8_init 0 0 5 = Inr s') \<and>
   \<not> (\<exists>s'. execute_draw (chip8_init\<lparr>V := (\<lambda>_. 0)(0 := 40)\<rparr>) 0 1 5 = Inr s')"
proof
  show "\<exists>s'. execute_draw chip8_init 0 0 5 = Inr s'"
    by (subst execute_draw_succeeds) (auto simp: chip8_init_def draw_hit_def sprite_hit_def)
  have "draw_hit (chip8_init\<lparr>V := (\<lambda>_. 0)(0 := 40)\<rparr>) 5 40 0 0 40 0"
    by (simp add: chip8_init_def draw_hit_def sprite_hit_def fontset_def)
  then show "\<not> (\<exists>s'. execute_draw (chip8_init\<lparr>V := (\<lambda>_. 0)(0 := 40)\<rparr>) 0 1 5 = Inr s')"
    by (subst execute_draw_succeeds) (auto simp: Let_def)
qed

theorem draw_twice_restores_witness:
  "\<exists>s2. execute_draw (chip8_init\<lparr>display := (\<lambda>_. 0)(0 := 0xF, 1 := 9, 2 := 9, 3 := 9, 4 := 0xF), draw_flag := True\<rparr>) 0 0 5 = Inr s2 \<and>
        display s2 = display chip8_init \<and> V s2 0xF = 1"
proof -
  have hit: "draw_hit chip8_init 5 0 0 0 0 0"
    by (simp add: chip8_init_def draw_hit_def sprite_hit_def fontset_def)
  from draw_twice_restores [OF glyph0_draw] hit show ?thesis
    by (auto simp: chip8_init_def)
qed



subsection \<open>Reading pixels\<close>

text \<open>
  C13. \<open>chip8_get_pixel\<close> returns false, without fault, for any coordinate
  outside the 64 by 32 screen.
\<close>

theorem get_pixel_out_of_range:
  "DISPLAY_WIDTH \<le> unat x \<or> DISPLAY_HEIGHT \<le> unat y \<Longrightarrow> chip8_get_pixel s x y = Inr False"
  by (simp add: chip8_get_pixel_def)

theorem get_pixel_out_of_range_witness:
  "chip8_get_pixel chip8_init 70 10 = Inr False \<and> chip8_get_pixel chip8_init 5 40 = Inr False"
  using get_pixel_out_of_range [of 70 10 chip8_init] get_pixel_out_of_range [of 5 40 chip8_init]
  by simp

text \<open>
  C14. Inside columns 0 to 31 \<open>chip8_get_pixel\<close> returns bit \<open>x\<close> of row \<open>y\<close>,
  the pixel that \<open>execute_draw\<close> toggles (C9).
\<close>

theorem get_pixel_reads_bit:
  "unat x < 32 \<Longrightarrow> unat y < DISPLAY_HEIGHT \<Longrightarrow>
   chip8_get_pixel s x y = Inr (bit (display s (unat y)) (unat x))"
  by (simp add: chip8_get_pixel_def and_mask_nonzero)

theorem get_pixel_reads_bit_witness:
  "chip8_get_pixel (chip8_init\<lparr>display := (\<lambda>_. 0)(0 := 0xF)\<rparr>) 3 0 = Inr True"
  using get_pixel_reads_bit [of 3 0 "chip8_init\<lparr>display := (\<lambda>_. 0)(0 := 0xF)\<rparr>"] by simp

text \<open>
  C15. For columns 32 to 63, which the screen has, \<open>chip8_get_pixel\<close> shifts
  \<open>1U\<close> by 32 or more: undefined behaviour, not a pixel value.
\<close>

theorem get_pixel_right_half_faults:
  "32 \<le> unat x \<Longrightarrow> unat x < DISPLAY_WIDTH \<Longrightarrow> unat y < DISPLAY_HEIGHT \<Longrightarrow>
   chip8_get_pixel s x y = Inl (Shift_out_of_range (unat x))"
  by (simp add: chip8_get_pixel_def)

theorem get_pixel_right_half_faults_witness:
  "chip8_get_pixel chip8_init 40 0 = Inl (Shift_out_of_range 40)"
  using get_pixel_right_half_faults [of 40 0 chip8_init] by simp

end
