(* ===== verification/Misc.thy ===== *)
theory Misc
  imports State
begin

text \<open>
  The \<open>Fx__\<close> family, \<open>execute_misc\<close> of \<^verbatim>\<open>src/chip8.c\<close>: timers,
  the wait-for-key poll, the index register, BCD and the register block
  store and load. Its three loops are structural recursions on the number of
  iterations left: \<open>scan_keys\<close> (\<open>Fx0A\<close>, \<open>i = 0 .. NUM_KEYS - 1\<close> with an
  early \<open>break\<close>), \<open>store_regs\<close> (\<open>Fx55\<close>) and \<open>load_regs\<close> (\<open>Fx65\<close>),
  both over \<open>i = 0 .. x\<close>. Memory indices \<open>I + k\<close> are computed in \<open>int\<close>
  by C, without wrap-around, and an index past \<open>memory[]\<close> is a fault.
\<close>

subsection \<open>Loops\<close>

fun scan_keys :: "(nat \<Rightarrow> u8) \<Rightarrow> nat \<Rightarrow> nat \<Rightarrow> nat option" where
  "scan_keys kp i 0 = None"
| "scan_keys kp i (Suc n) = (if kp i \<noteq> 0 then Some i else scan_keys kp (Suc i) n)"

fun store_regs :: "chip8 \<Rightarrow> nat \<Rightarrow> nat \<Rightarrow> fault + chip8" where
  "store_regs s i 0 = Inr s"
| "store_regs s i (Suc n) =
     ebind (mem_write s (unat (I s) + i) (V s i)) (\<lambda>s'. store_regs s' (Suc i) n)"

fun load_regs :: "chip8 \<Rightarrow> nat \<Rightarrow> nat \<Rightarrow> fault + chip8" where
  "load_regs s i 0 = Inr s"
| "load_regs s i (Suc n) =
     ebind (mem_read s (unat (I s) + i)) (\<lambda>v. load_regs (set_V s i v) (Suc i) n)"

subsection \<open>The dispatch on the low byte\<close>

definition execute_misc :: "chip8 \<Rightarrow> nat \<Rightarrow> u8 \<Rightarrow> fault + chip8" where
  "execute_misc s x op =
    (if op = 0x07 then Inr (set_V s x (delay_timer s))
     else if op = 0x0A then
       (case scan_keys (keypad s) 0 NUM_KEYS of
          Some i \<Rightarrow> Inr (set_V s x (of_nat i))
        | None \<Rightarrow> Inr (s\<lparr>pc := pc s - 2\<rparr>))
     else if op = 0x15 then Inr (s\<lparr>delay_timer := V s x\<rparr>)
     else if op = 0x18 then Inr (s\<lparr>sound_timer := V s x\<rparr>)
     else if op = 0x1E then Inr (s\<lparr>I := I s + ucast (V s x)\<rparr>)
     else if op = 0x29 then Inr (s\<lparr>I := of_nat (unat (V s x AND 0xF) * 5)\<rparr>)
     else if op = 0x33 then
       ebind (mem_write s (unat (I s)) (V s x div 100)) (\<lambda>s1.
       ebind (mem_write s1 (unat (I s1) + 1) ((V s1 x div 10) mod 10)) (\<lambda>s2.
       mem_write s2 (unat (I s2) + 2) (V s2 x mod 10)))
     else if op = 0x55 then store_regs s 0 (Suc x)
     else if op = 0x65 then load_regs s 0 (Suc x)
     else Inr s)"

subsection \<open>Loop lemmas\<close>

lemma scan_keys_None:
  "scan_keys kp i n = None \<longleftrightarrow> (\<forall>j. i \<le> j \<and> j < i + n \<longrightarrow> kp j = 0)"
proof (induction n arbitrary: i)
  case 0
  then show ?case by auto
next
  case (Suc n)
  show ?case
    by (auto simp: Suc.IH) (metis le_antisym not_less_eq_eq)+
qed

lemma scan_keys_Some:
  "scan_keys kp i n = Some k \<longleftrightarrow>
     i \<le> k \<and> k < i + n \<and> kp k \<noteq> 0 \<and> (\<forall>j. i \<le> j \<and> j < k \<longrightarrow> kp j = 0)"
proof (induction n arbitrary: i)
  case 0
  then show ?case by simp
next
  case (Suc n)
  show ?case
    by (auto simp: Suc.IH) (metis le_antisym not_less_eq_eq)+
qed

text \<open>
  The \<open>Fx55\<close> loop writes \<open>V0 .. V(n-1)\<close> (from index \<open>i\<close>) to
  \<open>I + i ..\<close> and nothing else, or faults at the first index past \<open>memory[]\<close>.
\<close>

lemma store_regs_closed:
  "store_regs s i n =
     (if n = 0 \<or> unat (I s) + i + n \<le> MEMORY_SIZE
      then Inr (s\<lparr>memory := \<lambda>a. if unat (I s) + i \<le> a \<and> a < unat (I s) + i + n
                                 then V s (a - unat (I s)) else memory s a\<rparr>)
      else Inl (Memory_out_of_range (max (unat (I s) + i) MEMORY_SIZE)))"
proof (induction n arbitrary: i s)
  case 0
  have "(\<lambda>a. if unat (I s) + i \<le> a \<and> a < unat (I s) + i + 0 then V s (a - unat (I s))
         else memory s a) = memory s"
    by (auto simp: fun_eq_iff)
  then show ?case by simp
next
  case (Suc n)
  show ?case
  proof (cases "unat (I s) + i < MEMORY_SIZE")
    case False
    then show ?thesis by (simp add: mem_write_def)
  next
    case True
    then show ?thesis
      by (auto simp: mem_write_def Suc.IH fun_eq_iff max_def)
  qed
qed

text \<open>
  The \<open>Fx65\<close> loop loads registers \<open>i ..\<close> from \<open>I + i ..\<close> and changes
  nothing else, or faults at the first index past \<open>memory[]\<close>.
\<close>

lemma load_regs_closed:
  "load_regs s i n =
     (if n = 0 \<or> unat (I s) + i + n \<le> MEMORY_SIZE
      then Inr (s\<lparr>V := \<lambda>r. if i \<le> r \<and> r < i + n then memory s (unat (I s) + r) else V s r\<rparr>)
      else Inl (Memory_out_of_range (max (unat (I s) + i) MEMORY_SIZE)))"
proof (induction n arbitrary: i s)
  case 0
  have "(\<lambda>r. if i \<le> r \<and> r < i + 0 then memory s (unat (I s) + r) else V s r) = V s"
    by (auto simp: fun_eq_iff)
  then show ?case by simp
next
  case (Suc n)
  show ?case
  proof (cases "unat (I s) + i < MEMORY_SIZE")
    case False
    then show ?thesis by (simp add: mem_read_def)
  next
    case True
    then show ?thesis
      by (auto simp: mem_read_def Suc.IH fun_eq_iff max_def set_V_def)
  qed
qed

subsection \<open>Frames of the loops and of the dispatch\<close>

lemma store_regs_frame: "store_regs s i n = Inr t \<Longrightarrow> \<exists>m. t = s\<lparr>memory := m\<rparr>"
proof (induction n arbitrary: i s)
  case 0
  then show ?case by (auto intro: exI [of _ "memory s"])
next
  case (Suc n)
  then obtain s1 where "mem_write s (unat (I s) + i) (V s i) = Inr s1" and "store_regs s1 (Suc i) n = Inr t"
    by auto
  then show ?case using Suc.IH by fastforce
qed

lemma load_regs_frame: "load_regs s i n = Inr t \<Longrightarrow> \<exists>v. t = s\<lparr>V := v\<rparr>"
proof (induction n arbitrary: i s)
  case 0
  then show ?case by (auto intro: exI [of _ "V s"])
next
  case (Suc n)
  then obtain b where "load_regs (set_V s i b) (Suc i) n = Inr t" by auto
  then show ?case using Suc.IH by (fastforce simp: set_V_def)
qed

text \<open>
  The \<open>Fx__\<close> family never touches the keypad, the stack or the display,
  and writes a timer only in \<open>Fx15\<close> and \<open>Fx18\<close>.
\<close>

lemma execute_misc_frame:
  "execute_misc s x op = Inr t \<Longrightarrow>
   keypad t = keypad s \<and> sp t = sp s \<and> stack t = stack s \<and> display t = display s \<and>
   draw_flag t = draw_flag s \<and> (op \<noteq> 0x15 \<longrightarrow> delay_timer t = delay_timer s) \<and>
   (op \<noteq> 0x18 \<longrightarrow> sound_timer t = sound_timer s)"
  by (auto simp: execute_misc_def split: if_splits option.splits
           dest!: store_regs_frame load_regs_frame)

subsection \<open>The register block instructions\<close>

text \<open>
  C16. \<open>Fx55\<close> writes \<open>V0 .. Vx\<close> to \<open>I .. I + x\<close> and changes nothing else
  when \<open>I + x\<close> lies in memory; otherwise it is undefined behaviour, first hit
  at index \<open>max I 4096\<close>, after the writes below 4096 (discarded with the
  faulting state).
\<close>

theorem fx55_stores:
  "execute_misc s x 0x55 =
     (if unat (I s) + x < MEMORY_SIZE
      then Inr (s\<lparr>memory := \<lambda>a. if unat (I s) \<le> a \<and> a \<le> unat (I s) + x
                                 then V s (a - unat (I s)) else memory s a\<rparr>)
      else Inl (Memory_out_of_range (max (unat (I s)) MEMORY_SIZE)))"
proof -
  have "(\<lambda>a. if unat (I s) \<le> a \<and> a < unat (I s) + Suc x then V s (a - unat (I s)) else memory s a) =
        (\<lambda>a. if unat (I s) \<le> a \<and> a \<le> unat (I s) + x then V s (a - unat (I s)) else memory s a)"
    by (auto simp: fun_eq_iff)
  then show ?thesis
    by (simp add: execute_misc_def store_regs_closed)
qed

text \<open>
  C17. \<open>Fx65\<close> loads \<open>V0 .. Vx\<close> from \<open>I .. I + x\<close> and changes nothing else
  when \<open>I + x\<close> lies in memory; otherwise it is undefined behaviour, first hit
  at index \<open>max I 4096\<close>.
\<close>

theorem fx65_loads:
  "execute_misc s x 0x65 =
     (if unat (I s) + x < MEMORY_SIZE
      then Inr (s\<lparr>V := \<lambda>r. if r \<le> x then memory s (unat (I s) + r) else V s r\<rparr>)
      else Inl (Memory_out_of_range (max (unat (I s)) MEMORY_SIZE)))"
proof -
  have "(\<lambda>r. if 0 \<le> r \<and> r < 0 + Suc x then memory s (unat (I s) + r) else V s r) =
        (\<lambda>r. if r \<le> x then memory s (unat (I s) + r) else V s r)"
    by (auto simp: fun_eq_iff)
  then show ?thesis
    by (simp add: execute_misc_def load_regs_closed)
qed

lemma bcd_nat: "100 * (n div 100) + 10 * (n div 10 mod 10) + n mod 10 = (n::nat)"
proof -
  have "n div 10 div 10 = n div 100" by (simp add: div_mult2_eq)
  moreover have "n div 10 = 10 * (n div 10 div 10) + n div 10 mod 10" by simp
  moreover have "n = 10 * (n div 10) + n mod 10" by simp
  ultimately show ?thesis by linarith
qed

text \<open>
  C18. \<open>Fx33\<close> with \<open>I + 2\<close> inside memory completes and stores the decimal
  digits of \<open>Vx\<close>: hundreds, tens and ones at \<open>I, I+1, I+2\<close>, which read
  back as \<open>Vx\<close>.
\<close>

theorem bcd_digits:
  "unat (I s) + 2 < MEMORY_SIZE \<Longrightarrow>
   \<exists>s'. execute_misc s x 0x33 = Inr s' \<and>
     100 * unat (memory s' (unat (I s))) + 10 * unat (memory s' (unat (I s) + 1))
       + unat (memory s' (unat (I s) + 2)) = unat (V s x) \<and>
     unat (memory s' (unat (I s) + 1)) < 10 \<and> unat (memory s' (unat (I s) + 2)) < 10"
  by (simp add: execute_misc_def mem_write_def unat_div_distrib unat_mod_distrib bcd_nat)

theorem bcd_digits_witness:
  "\<exists>s'. execute_misc (chip8_init\<lparr>I := 0x300, V := (\<lambda>_. 0)(0 := 234)\<rparr>) 0 0x33 = Inr s' \<and>
     100 * unat (memory s' 0x300) + 10 * unat (memory s' 0x301) + unat (memory s' 0x302) = 234"
  using bcd_digits [of "chip8_init\<lparr>I := 0x300, V := (\<lambda>_. 0)(0 := 234)\<rparr>" 0] by auto

text \<open>
  C19. \<open>Fx55\<close> followed, in any state with the same memory and \<open>I\<close>, by
  \<open>Fx65\<close> with the same \<open>x\<close> restores \<open>V0 .. Vx\<close>.
\<close>

theorem store_load_roundtrip:
  "unat (I s) + x < MEMORY_SIZE \<Longrightarrow>
   \<exists>s1. execute_misc s x 0x55 = Inr s1 \<and>
     (\<forall>t. memory t = memory s1 \<longrightarrow> I t = I s \<longrightarrow>
        (\<exists>t'. execute_misc t x 0x65 = Inr t' \<and> (\<forall>i \<le> x. V t' i = V s i)))"
  by (auto simp: execute_misc_def store_regs_closed load_regs_closed)

theorem store_load_roundtrip_witness:
  "\<exists>s1. execute_misc (chip8_init\<lparr>I := 0x300, V := (\<lambda>_. 0)(0 := 7, 1 := 9)\<rparr>) 1 0x55 = Inr s1 \<and>
     (\<exists>t'. execute_misc (s1\<lparr>V := \<lambda>_. 0\<rparr>) 1 0x65 = Inr t' \<and> V t' 0 = 7 \<and> V t' 1 = 9)"
proof -
  from store_load_roundtrip [of "chip8_init\<lparr>I := 0x300, V := (\<lambda>_. 0)(0 := 7, 1 := 9)\<rparr>" 1] obtain s1 where
    st: "execute_misc (chip8_init\<lparr>I := 0x300, V := (\<lambda>_. 0)(0 := 7, 1 := 9)\<rparr>) 1 0x55 = Inr s1" and
    ld: "\<forall>t. memory t = memory s1 \<longrightarrow> I t = I (chip8_init\<lparr>I := 0x300, V := (\<lambda>_. 0)(0 := 7, 1 := 9)\<rparr>) \<longrightarrow>
           (\<exists>t'. execute_misc t 1 0x65 = Inr t' \<and> (\<forall>i \<le> 1. V t' i = V (chip8_init\<lparr>I := 0x300, V := (\<lambda>_. 0)(0 := 7, 1 := 9)\<rparr>) i))"
    by auto
  have "I s1 = 0x300" using st by (auto simp: execute_misc_def store_regs_closed)
  with ld [rule_format, of "s1\<lparr>V := \<lambda>_. 0\<rparr>"] st show ?thesis by auto
qed

text \<open>
  C20. \<open>Fx29\<close> points \<open>I\<close> at the glyph of the low nibble of \<open>Vx\<close>:
  \<open>I = 5 * (Vx mod 16)\<close>, and the five glyph bytes lie inside the glyph table.
\<close>

theorem glyph_address:
  "\<exists>s'. execute_misc s x 0x29 = Inr s' \<and> unat (I s') = 5 * (unat (V s x) mod 16) \<and>
        unat (I s') + 5 \<le> FONTSET_SIZE"
proof -
  have lt: "unat (V s x AND 0xF) * 5 < 65536" by (simp add: unat_and_0xF)
  have "unat (of_nat (unat (V s x AND 0xF) * 5) :: u16) = unat (V s x AND 0xF) * 5"
    by (simp only: unat_of_nat) (use lt in simp)
  then show ?thesis
    by (simp add: execute_misc_def unat_and_0xF)
qed

text \<open>
  C21. \<open>Fx1E\<close> adds \<open>Vx\<close> to the 16-bit \<open>I\<close> modulo \<open>2^16\<close> and changes
  nothing else: no flag is written, even when the sum wraps.
\<close>

theorem index_add_wraps:
  "\<exists>i. execute_misc s x 0x1E = Inr (s\<lparr>I := i\<rparr>) \<and> unat i = (unat (I s) + unat (V s x)) mod 65536"
proof
  show "execute_misc s x 0x1E = Inr (s\<lparr>I := I s + ucast (V s x)\<rparr>) \<and>
        unat (I s + ucast (V s x)) = (unat (I s) + unat (V s x)) mod 65536"
    by (simp add: execute_misc_def unat_word_ariths)
qed

text \<open>
  C22. The timer transfers: \<open>Fx15\<close> writes \<open>Vx\<close> to the delay timer and
  \<open>Fx18\<close> to the sound timer, each changing nothing else, and a following
  \<open>Fy07\<close> reads the delay timer back into \<open>Vy\<close> and changes nothing else.
\<close>

theorem timer_transfer_roundtrip:
  "execute_misc s x 0x15 = Inr (s\<lparr>delay_timer := V s x\<rparr>) \<and>
   execute_misc s x 0x18 = Inr (s\<lparr>sound_timer := V s x\<rparr>) \<and>
   (\<exists>s2. ebind (execute_misc s x 0x15) (\<lambda>s1. execute_misc s1 y 0x07) = Inr s2 \<and>
         V s2 y = V s x \<and> s2 = s\<lparr>delay_timer := V s x, V := (V s)(y := V s x)\<rparr>)"
  by (simp add: execute_misc_def set_V_def)

end
