(* ===== verification/Cycle.thy ===== *)
theory Cycle
  imports Alu Display Misc
begin

text \<open>
  The fetch-decode-execute step \<open>chip8_cycle\<close> of \<^verbatim>\<open>src/chip8.c\<close>: the
  big-endian fetch of two bytes at \<open>pc\<close> (\<open>fetch_opcode\<close>), the opcode fields
  \<open>x, y, n, kk, nnn\<close>, the advance of \<open>pc\<close> by 2 before execution, and the
  switch on the top nibble (\<open>execute_opcode\<close>), which calls the components
  \<open>execute_arithmetic\<close> (\<open>Alu\<close>), \<open>execute_draw\<close> (\<open>Display\<close>) and
  \<open>execute_misc\<close> (\<open>Misc\<close>). The value \<open>rand() % 256\<close> that \<open>Cxkk\<close> uses is
  the parameter \<open>r\<close> of the cycle: the generator is outside \<open>chip8_t\<close>.
\<close>

subsection \<open>Fetch and fields\<close>

definition fetch_opcode :: "chip8 \<Rightarrow> fault + u16" where
  "fetch_opcode s =
     ebind (mem_read s (unat (pc s))) (\<lambda>hi.
     ebind (mem_read s (unat (pc s) + 1)) (\<lambda>lo.
     Inr (push_bit 8 (ucast hi) OR ucast lo)))"

definition op_x :: "u16 \<Rightarrow> nat" where
  "op_x opcode = unat (drop_bit 8 (opcode AND 0x0F00))"

definition op_y :: "u16 \<Rightarrow> nat" where
  "op_y opcode = unat (drop_bit 4 (opcode AND 0x00F0))"

definition op_n :: "u16 \<Rightarrow> u8" where
  "op_n opcode = ucast (opcode AND 0x000F)"

definition op_kk :: "u16 \<Rightarrow> u8" where
  "op_kk opcode = ucast (opcode AND 0x00FF)"

definition op_nnn :: "u16 \<Rightarrow> u16" where
  "op_nnn opcode = opcode AND 0x0FFF"

subsection \<open>Execution\<close>

definition execute_opcode :: "u8 \<Rightarrow> u16 \<Rightarrow> chip8 \<Rightarrow> fault + chip8" where
  "execute_opcode r opcode s =
    (let x = op_x opcode; y = op_y opcode; n = op_n opcode; kk = op_kk opcode;
         nnn = op_nnn opcode
     in if opcode AND 0xF000 = 0x0000 then
          (if opcode = 0x00E0 then Inr (s\<lparr>display := (\<lambda>_. 0), draw_flag := True\<rparr>)
           else if opcode = 0x00EE then
             (let sp' = sp s - 1
              in ebind (stack_read s (unat sp')) (\<lambda>a. Inr (s\<lparr>sp := sp', pc := a\<rparr>)))
           else Inr s)
        else if opcode AND 0xF000 = 0x1000 then Inr (s\<lparr>pc := nnn\<rparr>)
        else if opcode AND 0xF000 = 0x2000 then
          ebind (stack_write s (unat (sp s)) (pc s)) (\<lambda>s1. Inr (s1\<lparr>sp := sp s1 + 1, pc := nnn\<rparr>))
        else if opcode AND 0xF000 = 0x3000 then
          Inr (if V s x = kk then s\<lparr>pc := pc s + 2\<rparr> else s)
        else if opcode AND 0xF000 = 0x4000 then
          Inr (if V s x \<noteq> kk then s\<lparr>pc := pc s + 2\<rparr> else s)
        else if opcode AND 0xF000 = 0x5000 then
          Inr (if V s x = V s y then s\<lparr>pc := pc s + 2\<rparr> else s)
        else if opcode AND 0xF000 = 0x6000 then Inr (set_V s x kk)
        else if opcode AND 0xF000 = 0x7000 then Inr (set_V s x (V s x + kk))
        else if opcode AND 0xF000 = 0x8000 then Inr (execute_arithmetic s x y n)
        else if opcode AND 0xF000 = 0x9000 then
          Inr (if V s x \<noteq> V s y then s\<lparr>pc := pc s + 2\<rparr> else s)
        else if opcode AND 0xF000 = 0xA000 then Inr (s\<lparr>I := nnn\<rparr>)
        else if opcode AND 0xF000 = 0xB000 then Inr (s\<lparr>pc := nnn + ucast (V s 0)\<rparr>)
        else if opcode AND 0xF000 = 0xC000 then Inr (set_V s x (r AND kk))
        else if opcode AND 0xF000 = 0xD000 then execute_draw s x y n
        else if opcode AND 0xF000 = 0xE000 then
          Inr (if kk = 0x9E \<and> keypad s (unat (V s x AND 0xF)) \<noteq> 0 then s\<lparr>pc := pc s + 2\<rparr>
               else if kk = 0xA1 \<and> keypad s (unat (V s x AND 0xF)) = 0 then s\<lparr>pc := pc s + 2\<rparr>
               else s)
        else if opcode AND 0xF000 = 0xF000 then execute_misc s x kk
        else Inr s)"

definition chip8_cycle :: "u8 \<Rightarrow> chip8 \<Rightarrow> fault + chip8" where
  "chip8_cycle r s =
     ebind (fetch_opcode s) (\<lambda>opcode. execute_opcode r opcode (s\<lparr>pc := pc s + 2\<rparr>))"

text \<open>A state whose next instruction is the two bytes \<open>hi lo\<close>, for the examples.\<close>

abbreviation at_pc :: "chip8 \<Rightarrow> u8 \<Rightarrow> u8 \<Rightarrow> chip8" where
  "at_pc s hi lo \<equiv> s\<lparr>memory := (memory s)(unat (pc s) := hi, unat (pc s) + 1 := lo)\<rparr>"

subsection \<open>Lemmas shared by the cycle properties\<close>

lemma chip8_cycle_fetch:
  "fetch_opcode s = Inr op \<Longrightarrow> chip8_cycle r s = execute_opcode r op (s\<lparr>pc := pc s + 2\<rparr>)"
  by (simp add: chip8_cycle_def)

lemma unat_field:
  "unat (drop_bit k (w AND push_bit k (mask m)) :: u16) = unat w div 2 ^ k mod 2 ^ m"
proof -
  have "drop_bit k (w AND push_bit k (mask m)) = take_bit m (drop_bit k w)"
    by (rule bit_eqI) (auto simp: bit_simps dest: bit_imp_le_length)
  then show ?thesis
    by (simp only: unsigned_take_bit_eq unat_drop_bit_eq) (simp add: take_bit_eq_mod drop_bit_eq_div)
qed

lemma unat_low: "unat (w AND mask m :: u16) = unat w mod 2 ^ m"
  by (simp only: take_bit_eq_mask [symmetric] unsigned_take_bit_eq) (simp add: take_bit_eq_mod)

lemma unat_u8_inc: "unat (w :: u8) < 255 \<Longrightarrow> unat (w + 1) = unat w + 1"
  by (simp add: unat_word_ariths)

lemma unat_minus_one_u8: "unat (- 1 :: u8) = 255"
  by (simp add: unsigned_minus_1_eq_mask mask_eq_exp_minus_1)

lemma fetch_at_pc:
  "unat (pc s) + 1 < MEMORY_SIZE \<Longrightarrow> fetch_opcode (at_pc s hi lo) = Inr (push_bit 8 (ucast hi) OR ucast lo)"
  by (simp add: fetch_opcode_def mem_read_def)

lemma clear_screen_cycle:
  "fetch_opcode s = Inr 0x00E0 \<Longrightarrow>
   chip8_cycle r s = Inr (s\<lparr>pc := pc s + 2, display := (\<lambda>_. 0), draw_flag := True\<rparr>)"
  by (simp add: chip8_cycle_fetch execute_opcode_def Let_def)

text \<open>The branches of the dispatch the scenarios of the driver run through.\<close>

lemma execute_opcode_sys:
  "op AND 0xF000 = 0x0000 \<Longrightarrow> op \<noteq> 0x00E0 \<Longrightarrow> op \<noteq> 0x00EE \<Longrightarrow> execute_opcode r op s = Inr s"
  by (simp add: execute_opcode_def Let_def)

lemma execute_opcode_cls: "execute_opcode r 0x00E0 s = Inr (s\<lparr>display := (\<lambda>_. 0), draw_flag := True\<rparr>)"
  by (simp add: execute_opcode_def Let_def)

lemma execute_opcode_ld:
  "op AND 0xF000 = 0x6000 \<Longrightarrow> execute_opcode r op s = Inr (set_V s (op_x op) (op_kk op))"
  by (simp add: execute_opcode_def Let_def)

lemma execute_opcode_ld_i:
  "op AND 0xF000 = 0xA000 \<Longrightarrow> execute_opcode r op s = Inr (s\<lparr>I := op_nnn op\<rparr>)"
  by (simp add: execute_opcode_def Let_def)

lemma execute_opcode_drw:
  "op AND 0xF000 = 0xD000 \<Longrightarrow> execute_opcode r op s = execute_draw s (op_x op) (op_y op) (op_n op)"
  by (simp add: execute_opcode_def Let_def)

lemma execute_opcode_frame:
  "execute_opcode r op s = Inr t \<Longrightarrow>
   keypad t = keypad s \<and>
   (\<not> (op AND 0xF000 = 0xF000 \<and> (op_kk op = 0x15 \<or> op_kk op = 0x18)) \<longrightarrow>
      delay_timer t = delay_timer s \<and> sound_timer t = sound_timer s)"
  unfolding execute_opcode_def Let_def
  by (auto split: if_splits dest!: execute_misc_frame execute_draw_frame)

lemma execute_opcode_sp:
  "execute_opcode r op s = Inr t \<Longrightarrow> unat (sp s) \<le> STACK_SIZE \<Longrightarrow> unat (sp t) \<le> STACK_SIZE"
  unfolding execute_opcode_def Let_def
  by (auto split: if_splits dest!: execute_misc_frame execute_draw_frame simp: unat_u8_inc)

subsection \<open>Decoding\<close>

text \<open>
  C23. The decoded fields are the nibbles and bytes of the opcode they are
  named for: \<open>x\<close> is bits 8-11, \<open>y\<close> bits 4-7, \<open>n\<close> bits 0-3, \<open>kk\<close> bits
  0-7 and \<open>nnn\<close> bits 0-11; in particular \<open>x\<close> and \<open>y\<close> index the register file.
\<close>

theorem opcode_fields:
  "op_x opcode = unat opcode div 256 mod 16 \<and> op_y opcode = unat opcode div 16 mod 16 \<and>
   unat (op_n opcode) = unat opcode mod 16 \<and> unat (op_kk opcode) = unat opcode mod 256 \<and>
   unat (op_nnn opcode) = unat opcode mod 4096 \<and>
   op_x opcode < NUM_REGISTERS \<and> op_y opcode < NUM_REGISTERS"
proof -
  have x: "op_x opcode = unat opcode div 256 mod 16"
    using unat_field [of 8 opcode 4] by (simp add: op_x_def mask_eq_exp_minus_1)
  have y: "op_y opcode = unat opcode div 16 mod 16"
    using unat_field [of 4 opcode 4] by (simp add: op_y_def mask_eq_exp_minus_1)
  have n: "unat (op_n opcode) = unat opcode mod 16"
    using unat_low [of opcode 4] unsigned_less [of opcode]
    by (simp add: op_n_def mask_eq_exp_minus_1 unsigned_ucast_eq take_bit_nat_eq_self_iff)
  have kk: "unat (op_kk opcode) = unat opcode mod 256"
    using unat_low [of opcode 8]
    by (simp add: op_kk_def mask_eq_exp_minus_1 unsigned_ucast_eq take_bit_nat_eq_self_iff)
  have nnn: "unat (op_nnn opcode) = unat opcode mod 4096"
    using unat_low [of opcode 12] by (simp add: op_nnn_def mask_eq_exp_minus_1)
  show ?thesis using x y n kk nnn by simp
qed

text \<open>
  C24. The fetch reads the byte at \<open>pc\<close> as the high byte and the byte at
  \<open>pc + 1\<close> as the low byte of the opcode (big-endian), when both lie in memory.
\<close>

theorem fetch_opcode_big_endian:
  "unat (pc s) + 1 < MEMORY_SIZE \<Longrightarrow>
   \<exists>op. fetch_opcode s = Inr op \<and>
        unat op = 256 * unat (memory s (unat (pc s))) + unat (memory s (unat (pc s) + 1))"
  by (simp add: fetch_opcode_def mem_read_def u16_of_bytes)

theorem fetch_opcode_big_endian_witness:
  "\<exists>op. fetch_opcode (at_pc chip8_init 0x6A 0x05) = Inr op \<and> unat op = 0x6A05"
  using fetch_opcode_big_endian [of "at_pc chip8_init 0x6A 0x05"] by (simp add: chip8_init_def)

text \<open>
  C25. With \<open>pc = 0xFFF\<close>, the last address, the fetch of the low byte reads
  \<open>memory[0x1000]\<close>, past the array: nothing in \<open>chip8_cycle\<close> checks \<open>pc\<close>.
\<close>

theorem fetch_last_byte_faults:
  "unat (pc s) = MEMORY_SIZE - 1 \<Longrightarrow> fetch_opcode s = Inl (Memory_out_of_range MEMORY_SIZE)"
  by (simp add: fetch_opcode_def mem_read_def)

theorem fetch_last_byte_faults_witness:
  "fetch_opcode (chip8_init\<lparr>pc := 0xFFF\<rparr>) = Inl (Memory_out_of_range 4096)"
  using fetch_last_byte_faults [of "chip8_init\<lparr>pc := 0xFFF\<rparr>"] by simp

subsection \<open>Skips\<close>

text \<open>
  C26. \<open>3xkk\<close> advances \<open>pc\<close> by 4 when \<open>Vx = kk\<close> and by 2 otherwise, and
  changes nothing else.
\<close>

theorem skip_if_equal:
  "fetch_opcode s = Inr op \<Longrightarrow> op AND 0xF000 = 0x3000 \<Longrightarrow>
   chip8_cycle r s = Inr (s\<lparr>pc := pc s + (if V s (op_x op) = op_kk op then 4 else 2)\<rparr>)"
  by (simp add: chip8_cycle_fetch execute_opcode_def Let_def)

text \<open>
  C27. \<open>Ex9E\<close> skips when key \<open>Vx mod 16\<close> is held and \<open>ExA1\<close> when it is not:
  the key index is masked to its low nibble, so it is always a key of the latch.
\<close>

theorem key_skip_masked:
  "fetch_opcode s = Inr op \<Longrightarrow> op AND 0xF000 = 0xE000 \<Longrightarrow> op_kk op \<in> {0x9E, 0xA1} \<Longrightarrow>
   chip8_cycle r s =
     Inr (s\<lparr>pc := pc s + (if (keypad s (unat (V s (op_x op)) mod 16) \<noteq> 0) = (op_kk op = 0x9E)
                          then 4 else 2)\<rparr>)"
  by (auto simp: chip8_cycle_fetch execute_opcode_def Let_def unat_and_0xF)

theorem skip_if_equal_witness:
  "chip8_cycle 0 (at_pc chip8_init 0x30 0x00) = Inr ((at_pc chip8_init 0x30 0x00)\<lparr>pc := 0x204\<rparr>)"
  using skip_if_equal [of "at_pc chip8_init 0x30 0x00" "0x3000" 0]
  by (simp add: fetch_opcode_def op_x_def op_kk_def chip8_init_def)

theorem key_skip_masked_witness:
  "chip8_cycle 0 (at_pc chip8_init 0xE0 0xA1) = Inr ((at_pc chip8_init 0xE0 0xA1)\<lparr>pc := 0x204\<rparr>)"
  using key_skip_masked [of "at_pc chip8_init 0xE0 0xA1" "0xE0A1" 0]
  by (simp add: fetch_opcode_def op_x_def op_kk_def chip8_init_def)

subsection \<open>Waiting for a key\<close>

text \<open>
  C28. \<open>Fx0A\<close> with no key held rewinds \<open>pc\<close> by 2 after the fetch has
  advanced it: the cycle leaves the whole state unchanged, so the next cycle
  fetches \<open>Fx0A\<close> again.
\<close>

theorem wait_key_none:
  "fetch_opcode s = Inr op \<Longrightarrow> op AND 0xF000 = 0xF000 \<Longrightarrow> op_kk op = 0x0A \<Longrightarrow>
   \<forall>k < NUM_KEYS. keypad s k = 0 \<Longrightarrow> chip8_cycle r s = Inr s"
proof -
  assume a: "fetch_opcode s = Inr op" "op AND 0xF000 = 0xF000" "op_kk op = 0x0A"
    "\<forall>k < NUM_KEYS. keypad s k = 0"
  then have "scan_keys (keypad s) 0 NUM_KEYS = None" by (simp add: scan_keys_None)
  moreover have "s\<lparr>pc := pc s + 2, pc := pc s + 2 - 2\<rparr> = s" by simp
  ultimately show ?thesis using a
    by (simp add: chip8_cycle_fetch execute_opcode_def Let_def execute_misc_def)
qed

theorem wait_key_none_witness:
  "chip8_cycle 0 (at_pc chip8_init 0xF3 0x0A) = Inr (at_pc chip8_init 0xF3 0x0A)"
  using wait_key_none [of "at_pc chip8_init 0xF3 0x0A" "0xF30A" 0]
  by (simp add: fetch_opcode_def op_kk_def chip8_init_def)

text \<open>
  C29. \<open>Fx0A\<close> with keys held stores the lowest held key index in \<open>Vx\<close> and
  advances \<open>pc\<close> by 2.
\<close>

theorem wait_key_held:
  "fetch_opcode s = Inr op \<Longrightarrow> op AND 0xF000 = 0xF000 \<Longrightarrow> op_kk op = 0x0A \<Longrightarrow>
   k < NUM_KEYS \<Longrightarrow> keypad s k \<noteq> 0 \<Longrightarrow> \<forall>j < k. keypad s j = 0 \<Longrightarrow>
   chip8_cycle r s = Inr (set_V (s\<lparr>pc := pc s + 2\<rparr>) (op_x op) (of_nat k))"
proof -
  assume a: "fetch_opcode s = Inr op" "op AND 0xF000 = 0xF000" "op_kk op = 0x0A"
    "k < NUM_KEYS" "keypad s k \<noteq> 0" "\<forall>j < k. keypad s j = 0"
  then have "scan_keys (keypad s) 0 NUM_KEYS = Some k" by (simp add: scan_keys_Some)
  with a show ?thesis
    by (simp add: chip8_cycle_fetch execute_opcode_def Let_def execute_misc_def)
qed

theorem wait_key_held_witness:
  "chip8_cycle 0 ((at_pc chip8_init 0xF3 0x0A)\<lparr>keypad := (\<lambda>_. 0)(5 := 1, 9 := 1)\<rparr>) =
   Inr (set_V ((at_pc chip8_init 0xF3 0x0A)\<lparr>keypad := (\<lambda>_. 0)(5 := 1, 9 := 1), pc := 0x202\<rparr>) 3 5)"
  using wait_key_held [of "(at_pc chip8_init 0xF3 0x0A)\<lparr>keypad := (\<lambda>_. 0)(5 := 1, 9 := 1)\<rparr>"
                          "0xF30A" 5 0]
  by (simp add: fetch_opcode_def op_x_def op_kk_def chip8_init_def)

subsection \<open>Subroutines\<close>

text \<open>
  C30. \<open>2nnn\<close> with a free stack slot pushes the address of the next
  instruction and jumps to \<open>nnn\<close>; a following \<open>00EE\<close> pops it: \<open>sp\<close> is
  restored and execution continues after the call.
\<close>

theorem call_return:
  "fetch_opcode s = Inr op \<Longrightarrow> op AND 0xF000 = 0x2000 \<Longrightarrow> unat (sp s) < STACK_SIZE \<Longrightarrow>
   \<exists>s1. chip8_cycle r s = Inr s1 \<and> pc s1 = op_nnn op \<and> sp s1 = sp s + 1 \<and>
        (fetch_opcode s1 = Inr 0x00EE \<longrightarrow>
           chip8_cycle r' s1 = Inr (s1\<lparr>sp := sp s, pc := pc s + 2\<rparr>))"
proof -
  assume a: "fetch_opcode s = Inr op" "op AND 0xF000 = 0x2000" "unat (sp s) < STACK_SIZE"
  define s1 where "s1 = s\<lparr>pc := pc s + 2, stack := (stack s)(unat (sp s) := pc s + 2),
                          sp := sp s + 1, pc := op_nnn op\<rparr>"
  have c: "chip8_cycle r s = Inr s1"
    using a by (simp add: chip8_cycle_fetch execute_opcode_def Let_def stack_write_def s1_def)
  have "chip8_cycle r' s1 = Inr (s1\<lparr>sp := sp s, pc := pc s + 2\<rparr>)"
    if "fetch_opcode s1 = Inr 0x00EE"
    using that a by (simp add: chip8_cycle_fetch execute_opcode_def Let_def stack_read_def s1_def)
  with c show ?thesis by (simp add: s1_def)
qed

theorem call_return_witness:
  "\<exists>s1. chip8_cycle 0 (chip8_init\<lparr>memory := (memory chip8_init)(512 := 0x22, 513 := 0x04, 516 := 0x00, 517 := 0xEE)\<rparr>) = Inr s1 \<and>
        pc s1 = 0x204 \<and> sp s1 = 1 \<and> fetch_opcode s1 = Inr 0x00EE \<and>
        chip8_cycle 0 s1 = Inr (s1\<lparr>sp := 0, pc := 0x202\<rparr>)"
proof -
  let ?S = "chip8_init\<lparr>memory := (memory chip8_init)(512 := 0x22, 513 := 0x04, 516 := 0x00, 517 := 0xEE)\<rparr>"
  define S1 where "S1 = ?S\<lparr>stack := (stack ?S)(0 := 0x202), sp := 1, pc := 0x204\<rparr>"
  have c: "chip8_cycle 0 ?S = Inr S1"
    by (simp add: S1_def chip8_cycle_def fetch_opcode_def execute_opcode_def Let_def op_nnn_def
        stack_write_def chip8_init_def)
  have f: "fetch_opcode S1 = Inr 0x00EE"
    by (simp add: S1_def fetch_opcode_def chip8_init_def)
  have "\<exists>s1. chip8_cycle 0 ?S = Inr s1 \<and> pc s1 = op_nnn 0x2204 \<and> sp s1 = sp ?S + 1 \<and>
          (fetch_opcode s1 = Inr 0x00EE \<longrightarrow> chip8_cycle 0 s1 = Inr (s1\<lparr>sp := sp ?S, pc := pc ?S + 2\<rparr>))"
    by (rule call_return) (simp_all add: fetch_opcode_def chip8_init_def)
  with c f show ?thesis by (auto simp: op_nnn_def chip8_init_def)
qed

text \<open>
  C31. \<open>00EE\<close> on an empty stack decrements the 8-bit \<open>sp\<close> to 255 and reads
  \<open>stack[255]\<close>, past the 16 slots.
\<close>

theorem return_empty_stack_faults:
  "fetch_opcode s = Inr 0x00EE \<Longrightarrow> sp s = 0 \<Longrightarrow> chip8_cycle r s = Inl (Stack_out_of_range 255)"
  by (simp add: chip8_cycle_fetch execute_opcode_def Let_def stack_read_def unat_minus_one_u8)

theorem return_empty_stack_faults_witness:
  "chip8_cycle 0 (at_pc chip8_init 0x00 0xEE) = Inl (Stack_out_of_range 255)"
  using return_empty_stack_faults [of "at_pc chip8_init 0x00 0xEE" 0]
  by (simp add: fetch_opcode_def chip8_init_def)

text \<open>
  C32. \<open>2nnn\<close> with all 16 slots in use writes \<open>stack[16]\<close>, past the array.
\<close>

theorem call_overflow_faults:
  "fetch_opcode s = Inr op \<Longrightarrow> op AND 0xF000 = 0x2000 \<Longrightarrow> sp s = 16 \<Longrightarrow>
   chip8_cycle r s = Inl (Stack_out_of_range 16)"
  by (simp add: chip8_cycle_fetch execute_opcode_def Let_def stack_write_def)

theorem call_overflow_faults_witness:
  "chip8_cycle 0 ((at_pc chip8_init 0x22 0x00)\<lparr>sp := 16\<rparr>) = Inl (Stack_out_of_range 16)"
  using call_overflow_faults [of "(at_pc chip8_init 0x22 0x00)\<lparr>sp := 16\<rparr>" "0x2200" 0]
  by (simp add: fetch_opcode_def chip8_init_def)

subsection \<open>Unknown opcodes and what a cycle never writes\<close>

text \<open>
  C33. An opcode the switch does not decode (\<open>0nnn\<close> other than \<open>00E0\<close>
  and \<open>00EE\<close>, \<open>Ex__\<close> other than \<open>9E\<close>/\<open>A1\<close>, \<open>Fx__\<close> other than the
  nine decoded low bytes) only advances \<open>pc\<close> by 2.
\<close>

theorem unknown_opcode_noop:
  "fetch_opcode s = Inr op \<Longrightarrow>
   (op AND 0xF000 = 0x0000 \<and> op \<noteq> 0x00E0 \<and> op \<noteq> 0x00EE) \<or>
   (op AND 0xF000 = 0xE000 \<and> op_kk op \<notin> {0x9E, 0xA1}) \<or>
   (op AND 0xF000 = 0xF000 \<and> op_kk op \<notin> {0x07, 0x0A, 0x15, 0x18, 0x1E, 0x29, 0x33, 0x55, 0x65}) \<Longrightarrow>
   chip8_cycle r s = Inr (s\<lparr>pc := pc s + 2\<rparr>)"
proof -
  assume f: "fetch_opcode s = Inr op"
    and d: "(op AND 0xF000 = 0x0000 \<and> op \<noteq> 0x00E0 \<and> op \<noteq> 0x00EE) \<or>
      (op AND 0xF000 = 0xE000 \<and> op_kk op \<notin> {0x9E, 0xA1}) \<or>
      (op AND 0xF000 = 0xF000 \<and> op_kk op \<notin> {0x07, 0x0A, 0x15, 0x18, 0x1E, 0x29, 0x33, 0x55, 0x65})"
  note cf = chip8_cycle_fetch [OF f]
  from d show ?thesis
  proof (elim disjE conjE)
    assume "op AND 0xF000 = 0x0000" "op \<noteq> 0x00E0" "op \<noteq> 0x00EE"
    then show ?thesis by (simp add: cf execute_opcode_def Let_def)
  next
    assume "op AND 0xF000 = 0xE000" "op_kk op \<notin> {0x9E, 0xA1}"
    then show ?thesis by (simp add: cf execute_opcode_def Let_def)
  next
    assume "op AND 0xF000 = 0xF000"
      "op_kk op \<notin> {0x07, 0x0A, 0x15, 0x18, 0x1E, 0x29, 0x33, 0x55, 0x65}"
    then show ?thesis by (simp add: cf execute_opcode_def Let_def execute_misc_def)
  qed
qed

theorem unknown_opcode_noop_witness:
  "chip8_cycle 0 (at_pc chip8_init 0xF1 0xFF) = Inr ((at_pc chip8_init 0xF1 0xFF)\<lparr>pc := 0x202\<rparr>)"
  using unknown_opcode_noop [of "at_pc chip8_init 0xF1 0xFF" "0xF1FF" 0]
  by (simp add: fetch_opcode_def op_kk_def chip8_init_def)

text \<open>
  C34. The cycle never writes the keypad: \<open>chip8_set_key\<close> is its only writer.
\<close>

theorem cycle_keypad_unchanged:
  "chip8_cycle r s = Inr s' \<Longrightarrow> keypad s' = keypad s"
  by (auto simp: chip8_cycle_def dest!: execute_opcode_frame)

theorem cycle_keypad_unchanged_witness:
  "\<exists>s'. chip8_cycle 0 (at_pc chip8_init 0x00 0xE0) = Inr s' \<and> keypad s' = keypad chip8_init"
proof -
  have "fetch_opcode (at_pc chip8_init 0x00 0xE0) = Inr 0x00E0"
    using fetch_at_pc [of chip8_init 0 "0xE0"] by (simp add: chip8_init_def)
  note c = clear_screen_cycle [OF this, of 0]
  with cycle_keypad_unchanged [OF c] show ?thesis by simp
qed

text \<open>
  C35. Instruction execution never counts the timers down: a cycle whose
  opcode is not \<open>Fx15\<close> or \<open>Fx18\<close> leaves both timers as they were.
\<close>

theorem cycle_timers_unchanged:
  "fetch_opcode s = Inr op \<Longrightarrow> \<not> (op AND 0xF000 = 0xF000 \<and> (op_kk op = 0x15 \<or> op_kk op = 0x18)) \<Longrightarrow>
   chip8_cycle r s = Inr s' \<Longrightarrow> delay_timer s' = delay_timer s \<and> sound_timer s' = sound_timer s"
  by (auto simp: chip8_cycle_fetch dest!: execute_opcode_frame)

theorem cycle_timers_unchanged_witness:
  "\<exists>s'. chip8_cycle 0 ((at_pc chip8_init 0x00 0xE0)\<lparr>delay_timer := 9\<rparr>) = Inr s' \<and>
        delay_timer s' = 9 \<and> sound_timer s' = 0"
proof -
  let ?s = "(at_pc chip8_init 0x00 0xE0)\<lparr>delay_timer := 9\<rparr>"
  have f: "fetch_opcode ?s = Inr 0x00E0"
    using fetch_at_pc [of "chip8_init\<lparr>delay_timer := 9\<rparr>" 0 "0xE0"] by (simp add: chip8_init_def)
  note c = clear_screen_cycle [OF f, of 0]
  with cycle_timers_unchanged [OF f _ c] show ?thesis by (simp add: chip8_init_def)
qed

end
