(* ===== verification/Peripherals.thy ===== *)
theory Peripherals
  imports State
begin

text \<open>
  The operations the driver calls besides the cycle: \<open>chip8_update_timers\<close>
  (the 60 Hz tick of both countdown timers) and \<open>chip8_set_key\<close> (the input
  latch) of \<^verbatim>\<open>src/chip8.c\<close>. Neither is ever called by the cycle.
\<close>

definition chip8_update_timers :: "chip8 \<Rightarrow> chip8" where
  "chip8_update_timers s =
     (let s1 = (if delay_timer s > 0 then s\<lparr>delay_timer := delay_timer s - 1\<rparr> else s)
      in if sound_timer s1 > 0 then s1\<lparr>sound_timer := sound_timer s1 - 1\<rparr> else s1)"

definition chip8_set_key :: "chip8 \<Rightarrow> u8 \<Rightarrow> u8 \<Rightarrow> chip8" where
  "chip8_set_key s key state =
     (if unat key < NUM_KEYS then s\<lparr>keypad := (keypad s)(unat key := state)\<rparr> else s)"

subsection \<open>Timers\<close>

lemma unat_dec_floor: "unat (if 0 < w then w - 1 else w :: u8) = unat w - 1"
  by (cases "w = 0") (simp_all add: unat_minus_one word_neq_0_conv)

lemma update_timers_fields [simp]:
  "memory (chip8_update_timers s) = memory s" "V (chip8_update_timers s) = V s"
  "I (chip8_update_timers s) = I s" "pc (chip8_update_timers s) = pc s"
  "sp (chip8_update_timers s) = sp s" "stack (chip8_update_timers s) = stack s"
  "keypad (chip8_update_timers s) = keypad s" "display (chip8_update_timers s) = display s"
  "draw_flag (chip8_update_timers s) = draw_flag s"
  by (simp_all add: chip8_update_timers_def Let_def)

text \<open>
  C36. A tick counts each timer down by one independently and stops at 0,
  never wrapping to 255; from the initial state any number of ticks leaves both
  timers at 0.
\<close>

theorem update_timers_countdown:
  "unat (delay_timer (chip8_update_timers s)) = unat (delay_timer s) - 1 \<and>
   unat (sound_timer (chip8_update_timers s)) = unat (sound_timer s) - 1 \<and>
   delay_timer ((chip8_update_timers ^^ n) chip8_init) = 0 \<and>
   sound_timer ((chip8_update_timers ^^ n) chip8_init) = 0"
proof -
  have "delay_timer ((chip8_update_timers ^^ n) chip8_init) = 0 \<and>
        sound_timer ((chip8_update_timers ^^ n) chip8_init) = 0"
    by (induction n) (simp_all add: chip8_update_timers_def Let_def chip8_init_def)
  moreover have "delay_timer (chip8_update_timers s) =
                   (if 0 < delay_timer s then delay_timer s - 1 else delay_timer s)"
    and "sound_timer (chip8_update_timers s) =
                   (if 0 < sound_timer s then sound_timer s - 1 else sound_timer s)"
    by (simp_all add: chip8_update_timers_def Let_def)
  ultimately show ?thesis by (simp add: unat_dec_floor)
qed

subsection \<open>Input latch\<close>

text \<open>
  C37. \<open>chip8_set_key\<close> with a key index of 16 or more is ignored, not an
  error; with an index below 16 it stores the state of exactly that key.
\<close>

theorem set_key_latch:
  "(NUM_KEYS \<le> unat k \<longrightarrow> chip8_set_key s k v = s) \<and>
   (unat k < NUM_KEYS \<longrightarrow> keypad (chip8_set_key s k v) (unat k) = v \<and>
      (\<forall>j. j \<noteq> unat k \<longrightarrow> keypad (chip8_set_key s k v) j = keypad s j) \<and>
      (chip8_set_key s k v)\<lparr>keypad := keypad s\<rparr> = s)"
  by (simp add: chip8_set_key_def)

theorem set_key_latch_witness:
  "chip8_set_key chip8_init 16 1 = chip8_init \<and> keypad (chip8_set_key chip8_init 15 1) 15 = 1"
  using set_key_latch [of 16 chip8_init 1] set_key_latch [of 15 chip8_init 1] by simp

end
