(* ===== verification/Loader.thy ===== *)
theory Loader
  imports State
begin

text \<open>
  \<open>chip8_load_rom\<close> of \<^verbatim>\<open>src/chip8.c\<close>. The file system is a parameter
  \<open>files\<close> from file names to their contents: \<open>None\<close> is a file that
  \<open>fopen\<close> cannot open, \<open>Some bytes\<close> a file whose size \<open>ftell\<close> reports as
  \<open>length bytes\<close>. The \<open>fread\<close> of \<open>size\<close> bytes to \<open>&memory[PROGRAM_START]\<close>
  is the loop \<open>write_bytes\<close> of checked byte writes, so that a copy past the
  end of \<open>memory[]\<close> would be a fault; the size check before it rules that out.
  The C function returns an \<open>int\<close> status, modelled as \<open>int\<close>, with the state.
\<close>

fun write_bytes :: "chip8 \<Rightarrow> nat \<Rightarrow> u8 list \<Rightarrow> fault + chip8" where
  "write_bytes s a [] = Inr s"
| "write_bytes s a (b # bs) = ebind (mem_write s a b) (\<lambda>s'. write_bytes s' (Suc a) bs)"

definition chip8_load_rom :: "chip8 \<Rightarrow> string \<Rightarrow> (string \<Rightarrow> u8 list option) \<Rightarrow> fault + int \<times> chip8" where
  "chip8_load_rom s filename files =
     (case files filename of
        None \<Rightarrow> Inr (-1, s)
      | Some bytes \<Rightarrow>
          (let size = int (length bytes)
           in if size > int MEMORY_SIZE - int PROGRAM_START then Inr (-1, s)
              else ebind (write_bytes s PROGRAM_START bytes) (\<lambda>s'. Inr (0, s'))))"

text \<open>The memory image after \<open>bytes\<close> are copied to address \<open>a\<close>.\<close>

definition image_at :: "(nat \<Rightarrow> u8) \<Rightarrow> nat \<Rightarrow> u8 list \<Rightarrow> nat \<Rightarrow> u8" where
  "image_at m a bytes = (\<lambda>i. if a \<le> i \<and> i < a + length bytes then bytes ! (i - a) else m i)"

lemma image_at_Nil [simp]: "image_at m a [] = m"
  by (auto simp: image_at_def fun_eq_iff)

lemma write_bytes_eq:
  "a + length bs \<le> MEMORY_SIZE \<Longrightarrow> write_bytes s a bs = Inr (s\<lparr>memory := image_at (memory s) a bs\<rparr>)"
proof (induction bs arbitrary: a s)
  case Nil
  then show ?case by simp
next
  case (Cons b bs)
  then have "a < MEMORY_SIZE" by simp
  with Cons show ?case
    by (auto simp: image_at_def fun_eq_iff nth_Cons' Suc_diff_Suc)
qed

lemma write_bytes_frame: "write_bytes s a bs = Inr t \<Longrightarrow> \<exists>m. t = s\<lparr>memory := m\<rparr>"
proof (induction bs arbitrary: a s)
  case Nil
  then show ?case by (auto intro: exI [of _ "memory s"])
next
  case (Cons b bs)
  then show ?case by fastforce
qed

lemma load_rom_frame: "chip8_load_rom s f files = Inr (rc, t) \<Longrightarrow> \<exists>m. t = s\<lparr>memory := m\<rparr>"
  by (auto simp: chip8_load_rom_def Let_def split: option.splits if_splits
           dest!: write_bytes_frame intro: exI [of _ "memory s"])

text \<open>
  C38. A ROM of at most \<open>MEMORY_SIZE - PROGRAM_START\<close> = 3584 bytes loads:
  status 0, its bytes at \<open>0x200 ..\<close>, memory below \<open>0x200\<close> (the glyph table)
  and every other field unchanged, and the copy stays inside \<open>memory[]\<close>. A
  larger ROM, or a file that cannot be opened, gives status -1 and leaves the
  state exactly as it was.
\<close>

theorem load_rom_contract:
  "(files f = Some bytes \<and> length bytes \<le> MEMORY_SIZE - PROGRAM_START \<longrightarrow>
      chip8_load_rom s f files = Inr (0, s\<lparr>memory := image_at (memory s) PROGRAM_START bytes\<rparr>) \<and>
      (\<forall>a < PROGRAM_START. image_at (memory s) PROGRAM_START bytes a = memory s a)) \<and>
   (files f = Some bytes \<and> MEMORY_SIZE - PROGRAM_START < length bytes \<longrightarrow>
      chip8_load_rom s f files = Inr (-1, s)) \<and>
   (files f = None \<longrightarrow> chip8_load_rom s f files = Inr (-1, s))"
  by (auto simp: chip8_load_rom_def write_bytes_eq image_at_def)

theorem load_rom_contract_witness:
  "chip8_load_rom chip8_init ''rom'' ((\<lambda>_. None)(''rom'' := Some (replicate 3584 0))) =
     Inr (0, chip8_init\<lparr>memory := image_at (memory chip8_init) 512 (replicate 3584 0)\<rparr>) \<and>
   chip8_load_rom chip8_init ''rom'' ((\<lambda>_. None)(''rom'' := Some (replicate 3585 0))) =
     Inr (-1, chip8_init) \<and>
   chip8_load_rom chip8_init ''rom'' (\<lambda>_. None) = Inr (-1, chip8_init)"
  using load_rom_contract [of "(\<lambda>_. None)(''rom'' := Some (replicate 3584 0))" "''rom''"
                              "replicate 3584 0" chip8_init]
        load_rom_contract [of "(\<lambda>_. None)(''rom'' := Some (replicate 3585 0))" "''rom''"
                              "replicate 3585 0" chip8_init]
        load_rom_contract [of "\<lambda>_. None" "''rom''" "[]" chip8_init]
  by simp

end
