(* ===== verification/Driver.thy ===== *)
theory Driver
  imports Cycle Peripherals Loader
begin

text \<open>
  The demonstration driver \<open>main\<close> of \<^verbatim>\<open>src/main.c\<close>: argument check,
  \<open>chip8_init\<close>, \<open>chip8_load_rom\<close>, then ten iterations of
  \<open>chip8_cycle\<close>, \<open>chip8_update_timers\<close> and the consumption of the draw
  flag. Console output is a list of lines tagged with their stream; the exit
  status is an \<open>int\<close>. The byte \<open>rand() % 256\<close> a \<open>Cxkk\<close> of iteration \<open>i\<close>
  would use is \<open>rnd i\<close>: the generator, seeded from the clock, is an input.
  A fault of a cycle (undefined behaviour in C) ends the run with that fault.
\<close>

datatype console = Stdout string | Stderr string

definition main_iteration :: "u8 \<Rightarrow> chip8 \<Rightarrow> fault + chip8 \<times> console list" where
  "main_iteration r s =
     ebind (chip8_cycle r s) (\<lambda>s1.
       let s2 = chip8_update_timers s1
       in Inr (if draw_flag s2 then (s2\<lparr>draw_flag := False\<rparr>, [Stdout ''Draw flag set''])
               else (s2, [])))"

fun main_loop :: "nat \<Rightarrow> nat \<Rightarrow> (nat \<Rightarrow> u8) \<Rightarrow> chip8 \<Rightarrow> fault + chip8 \<times> console list" where
  "main_loop i 0 rnd s = Inr (s, [])"
| "main_loop i (Suc n) rnd s =
     ebind (main_iteration (rnd i) s) (\<lambda>(s1, out1).
     ebind (main_loop (Suc i) n rnd s1) (\<lambda>(s2, out2). Inr (s2, out1 @ out2)))"

definition chip8_main ::
  "string \<Rightarrow> string list \<Rightarrow> (string \<Rightarrow> u8 list option) \<Rightarrow> (nat \<Rightarrow> u8) \<Rightarrow> fault + int \<times> console list" where
  "chip8_main prog args files rnd =
     (if length args + 1 < 2 then Inr (1, [Stdout (''Usage: '' @ prog @ '' <rom_file>'')])
      else ebind (chip8_load_rom chip8_init (hd args) files) (\<lambda>(rc, s).
             if rc \<noteq> 0 then Inr (1, [Stderr (''Failed to load ROM: '' @ hd args)])
             else ebind (main_loop 0 10 rnd s) (\<lambda>(s', out).
                    Inr (0, Stdout ''ROM loaded successfully'' # out))))"

text \<open>
  The program of the scenario of the specification: \<open>6A05\<close>, \<open>A2F0\<close>,
  \<open>00E0\<close>, \<open>A000\<close> (\<open>I\<close> at the glyph of digit 0) and \<open>D005\<close>.
\<close>

definition demo_rom :: "u8 list" where
  "demo_rom = [0x6A, 0x05, 0xA2, 0xF0, 0x00, 0xE0, 0xA0, 0x00, 0xD0, 0x05]"

lemma demo_load:
  "chip8_load_rom chip8_init ''demo.ch8'' ((\<lambda>_. None)(''demo.ch8'' := Some demo_rom)) =
   Inr (0, chip8_init\<lparr>memory := (memory chip8_init)(512 := 0x6A, 513 := 0x05, 514 := 0xA2,
          515 := 0xF0, 516 := 0x00, 517 := 0xE0, 518 := 0xA0, 519 := 0x00, 520 := 0xD0, 521 := 0x05)\<rparr>)"
  by (simp add: chip8_load_rom_def demo_rom_def)

lemma demo_loop:
  "main_loop 0 10 rnd (chip8_init\<lparr>memory := (memory chip8_init)(512 := 0x6A, 513 := 0x05, 514 := 0xA2,
          515 := 0xF0, 516 := 0x00, 517 := 0xE0, 518 := 0xA0, 519 := 0x00, 520 := 0xD0, 521 := 0x05)\<rparr>) =
   Inr (chip8_init\<lparr>memory := (memory chip8_init)(512 := 0x6A, 513 := 0x05, 514 := 0xA2,
          515 := 0xF0, 516 := 0x00, 517 := 0xE0, 518 := 0xA0, 519 := 0x00, 520 := 0xD0, 521 := 0x05),
        V := (\<lambda>_. 0)(0xA := 5), I := 0, pc := 0x214,
        display := (\<lambda>_. 0)(0 := 0xF, 1 := 9, 2 := 9, 3 := 9, 4 := 0xF)\<rparr>,
      [Stdout ''Draw flag set'', Stdout ''Draw flag set''])"
proof -
  have ten: "(10::nat) = Suc (Suc (Suc (Suc (Suc (Suc (Suc (Suc (Suc (Suc 0)))))))))" by simp
  show ?thesis
    unfolding ten
    by (simp add: main_iteration_def chip8_cycle_def fetch_opcode_def mem_read_def
      execute_opcode_sys execute_opcode_cls execute_opcode_ld execute_opcode_ld_i execute_opcode_drw
      op_x_def op_y_def op_n_def op_kk_def op_nnn_def chip8_update_timers_def
      execute_draw_def draw_rows.simps draw_cols.simps fontset_def set_V_def Let_def chip8_init_def
      fun_eq_iff)
qed

text \<open>What one iteration of the loop prints and leaves in the draw flag.\<close>

lemma main_iteration_Inr:
  "main_iteration r s = Inr (s1, out) \<Longrightarrow>
   \<exists>c. chip8_cycle r s = Inr c \<and> s1 = (chip8_update_timers c)\<lparr>draw_flag := False\<rparr> \<and>
       out = (if draw_flag c then [Stdout ''Draw flag set''] else [])"
  by (auto simp: main_iteration_def Let_def split: if_splits
           intro: exI [of _ "chip8_update_timers _"])

lemma main_loop_output:
  "main_loop i n rnd s = Inr (s', out) \<Longrightarrow>
   length out \<le> n \<and> set out \<subseteq> {Stdout ''Draw flag set''} \<and> (0 < n \<longrightarrow> \<not> draw_flag s')"
proof (induction n arbitrary: i s out)
  case 0
  then show ?case by simp
next
  case (Suc n)
  then obtain s1 o1 o2 where it: "main_iteration (rnd i) s = Inr (s1, o1)"
    and rest: "main_loop (Suc i) n rnd s1 = Inr (s', o2)" and out: "out = o1 @ o2"
    by (auto split: prod.splits)
  from main_iteration_Inr [OF it] have o1: "length o1 \<le> 1 \<and> set o1 \<subseteq> {Stdout ''Draw flag set''}"
    and f1: "\<not> draw_flag s1" by auto
  from Suc.IH [OF rest] o1 out show ?case
    using rest f1 by (cases n) auto
qed

end
