(* ===== verification/Spec2Isabelle.thy ===== *)
theory Spec2Isabelle
  imports Driver
begin

text \<open>
  \<^bold>\<open>A verification development of the CHIP-8 interpreter chip8-emu.\<close>

  \<^medskip>
  \<^emph>\<open>The program.\<close> \<^verbatim>\<open>src/chip8.h\<close> declares the machine state
  \<open>chip8_t\<close> (4096 bytes of memory, sixteen 8-bit registers \<open>V\<close>, the 16-bit
  index \<open>I\<close> and program counter \<open>pc\<close>, an 8-bit stack pointer over 16 return
  slots, two 8-bit timers, 16 key bytes, a framebuffer of 32 rows of
  \<open>uint32_t\<close> and a draw flag). \<^verbatim>\<open>src/chip8.c\<close> implements
  \<open>chip8_init\<close>, \<open>chip8_load_rom\<close>, the cycle \<open>chip8_cycle\<close> (fetch,
  decode, execute) with its helpers \<open>execute_arithmetic\<close> (\<open>8xy_\<close>),
  \<open>execute_draw\<close> (\<open>Dxyn\<close>) and \<open>execute_misc\<close> (\<open>Fx__\<close>), and the
  driver-side operations \<open>chip8_update_timers\<close>, \<open>chip8_set_key\<close> and
  \<open>chip8_get_pixel\<close>. \<^verbatim>\<open>src/main.c\<close> loads a ROM and runs ten
  iterations of cycle, timer tick and draw-flag consumption.

  \<^medskip>
  \<^emph>\<open>The model.\<close> A shallow embedding, one theory per part:
  \<^item> \<open>Prelude\<close>: \<open>u8\<close>, \<open>u16\<close>, \<open>u32\<close> as \<open>8 word\<close>, \<open>16 word\<close>, \<open>32 word\<close>,
    so C's unsigned wrap-around is word arithmetic; \<open>ebind\<close>, the bind of the
    error sum \<open>fault + 'a\<close>; shared word and bit lemmas.
  \<^item> \<open>State\<close>: the record \<open>chip8\<close> (one field per member of \<open>chip8_t\<close>,
    arrays as functions from indices), the \<open>#define\<close> constants, the glyph
    table \<open>fontset\<close>, \<open>chip8_init\<close>, and checked accessors \<open>mem_read\<close>,
    \<open>mem_write\<close>, \<open>stack_read\<close>, \<open>stack_write\<close>, \<open>set_V\<close>.
  \<^item> \<open>Alu\<close>: \<open>execute_arithmetic\<close>, statement by statement, the flag write
    and the result write in the order of the C code.
  \<^item> \<open>Display\<close>: \<open>execute_draw\<close> with its two loops \<open>draw_rows\<close> and
    \<open>draw_cols\<close> (\<^theory_text>\<open>function\<close>s with measures), \<open>chip8_get_pixel\<close>, and the
    pixel-level specification \<open>draw_hit\<close> of a blit.
  \<^item> \<open>Misc\<close>: \<open>execute_misc\<close> with the loops \<open>scan_keys\<close> (\<open>Fx0A\<close>),
    \<open>store_regs\<close> (\<open>Fx55\<close>) and \<open>load_regs\<close> (\<open>Fx65\<close>).
  \<^item> \<open>Cycle\<close>: \<open>fetch_opcode\<close>, the field extractors \<open>op_x\<close>, \<open>op_y\<close>,
    \<open>op_n\<close>, \<open>op_kk\<close>, \<open>op_nnn\<close>, the switch \<open>execute_opcode\<close> and
    \<open>chip8_cycle\<close>, which advances \<open>pc\<close> by 2 before the switch.
  \<^item> \<open>Peripherals\<close>: \<open>chip8_update_timers\<close> and \<open>chip8_set_key\<close>.
  \<^item> \<open>Loader\<close>: \<open>chip8_load_rom\<close>, its \<open>fread\<close> as the loop \<open>write_bytes\<close>.
  \<^item> \<open>Driver\<close>: \<open>main\<close> as \<open>chip8_main\<close>, its loop body \<open>main_iteration\<close>
    and the loop \<open>main_loop\<close>.
  \<^item> This theory: the reachable states of the machine as the driver may drive
    it, and an invariant of them.

  Every operation takes the state and returns the new one. An operation that
  can hit undefined behaviour in C returns \<open>fault + chip8\<close>: an array index out
  of bounds (\<open>Memory_out_of_range\<close>, \<open>Stack_out_of_range\<close>) or a shift
  \<open>1U << n\<close> with \<open>n \<ge> 32\<close> (\<open>Shift_out_of_range\<close>) is the value \<open>Inl\<close>,
  not an arbitrary result, so the theorems can say where the C code is and is
  not defined. The byte \<open>rand() % 256\<close> of \<open>Cxkk\<close> is a parameter of the
  cycle; the driver takes a sequence of them.

  \<^medskip>
  \<^emph>\<open>Loops, termination, fuel.\<close> No definition needs fuel: the blit loops
  are \<^theory_text>\<open>function\<close>s with the measures \<open>8 - col\<close> and \<open>height - row\<close>; the key
  scan and the register loops recurse on the number of iterations left, which
  is the C bound (\<open>NUM_KEYS\<close>, \<open>x + 1\<close>); the ROM copy recurses on the byte
  list and \<open>main\<close> on its ten iterations. The C loop \<open>Fx0A\<close> does not block:
  it rewinds \<open>pc\<close>, and the property (C28) is that the state is unchanged.

  \<^medskip>
  \<^emph>\<open>What the lemmas show.\<close> ALU results and flags, including the two places
  where the flag order loses information (C1--C8); the blit against its
  pixel-level specification, exactly when it is defined and the only two ways
  it can fault, XOR idempotence, and the pixel read with its right-half
  undefined behaviour (C9--C15); the \<open>Fx__\<close> instructions: the register
  block loops in closed form, BCD, the store/load round trip, the glyph
  address, the index wrap and the timer transfers (C16--C22); the exact
  opcode fields, fetch, skips, key wait, call and return with their stack
  faults, unknown opcodes, and the fields a cycle never writes (C23--C35); the
  timers and the key latch (C36--C37); the loader contract (C38); the stack
  pointer bound in every reachable state (C39); and the driver, whose loop
  stays within the reachable states and consumes the draw flag, and whose exit
  status and console lines take one of two shapes (C40). The specification's
  own scenario (\<open>6A05\<close>, \<open>A2F0\<close>, \<open>00E0\<close>, \<open>D005\<close>) is evaluated in
  \<open>Driver\<close> (\<open>demo_loop\<close>) and instantiates C40.

  \<^medskip>
  \<^emph>\<open>Not modelled.\<close> The file I/O of \<open>chip8_load_rom\<close> beyond the contents
  of the file (an \<open>ftell\<close> failure, a short \<open>fread\<close>), the clock seeding of
  \<open>srand\<close> and the generator itself, and the text formatting of \<open>printf\<close>
  beyond the lines printed: they are the C library, not the program.
\<close>

section \<open>Reachable states\<close>

text \<open>
  The states the driver can produce: a freshly loaded machine, then any
  sequence of cycles that do not fault, timer ticks, key changes and
  consumptions of the draw flag, in any interleaving.
\<close>

inductive reachable :: "chip8 \<Rightarrow> bool" where
  loaded: "chip8_load_rom chip8_init f files = Inr (0, s) \<Longrightarrow> reachable s"
| cycle: "reachable s \<Longrightarrow> chip8_cycle r s = Inr s' \<Longrightarrow> reachable s'"
| tick: "reachable s \<Longrightarrow> reachable (chip8_update_timers s)"
| key: "reachable s \<Longrightarrow> reachable (chip8_set_key s k v)"
| render: "reachable s \<Longrightarrow> reachable (s\<lparr>draw_flag := False\<rparr>)"

lemma cycle_sp_bound:
  "chip8_cycle r s = Inr s' \<Longrightarrow> unat (sp s) \<le> STACK_SIZE \<Longrightarrow> unat (sp s') \<le> STACK_SIZE"
  by (auto simp: chip8_cycle_def dest: execute_opcode_sp)


text \<open>
  C39. In every reachable state the stack pointer is at most \<open>STACK_SIZE\<close>:
  a call with all slots in use and a return on an empty stack are faults
  (C31, C32), so no run that avoids undefined behaviour moves \<open>sp\<close> out of
  \<open>[0, 16]\<close>.
\<close>

theorem reachable_sp_bound: "reachable s \<Longrightarrow> unat (sp s) \<le> STACK_SIZE"
proof (induction rule: reachable.induct)
  case (loaded f files s)
  then show ?case by (auto dest!: load_rom_frame simp: chip8_init_def)
next
  case (cycle s r s')
  then show ?case using cycle_sp_bound by blast
next
  case (key s k v)
  then show ?case by (simp add: chip8_set_key_def)
qed simp_all

theorem reachable_sp_bound_witness:
  "unat (sp (chip8_init\<lparr>memory := (memory chip8_init)(512 := 0x6A, 513 := 0x05, 514 := 0xA2,
          515 := 0xF0, 516 := 0x00, 517 := 0xE0, 518 := 0xA0, 519 := 0x00, 520 := 0xD0, 521 := 0x05)\<rparr>))
   \<le> STACK_SIZE"
  by (rule reachable_sp_bound [OF reachable.loaded [OF demo_load]])



end
